theory Spec2Isabelle
  imports Complex_Main
begin

section \<open>Python exceptions as values\<close>

text \<open>
  Every \<^verbatim>\<open>raise\<close>, failed \<^verbatim>\<open>assert\<close> and failed attribute or index access of the
  source is a value of type \<open>error\<close>; a computation that may raise returns
  \<open>error + 'a\<close> with \<open>Inl\<close> for the exception.  \<open>NonFinite\<close> marks a floating-point
  result (\<open>inf\<close>, \<open>nan\<close>) that has no counterpart among the real numbers.
\<close>

datatype error =
    AttributeError string
  | AssertionError string
  | RuntimeError
  | ValueError
  | TypeError
  | IndexError
  | KeyError string
  | ZeroDivisionError
  | NonFinite

definition bindE :: "error + 'a \<Rightarrow> ('a \<Rightarrow> error + 'b) \<Rightarrow> error + 'b" where
  "bindE m f = (case m of Inl e \<Rightarrow> Inl e | Inr v \<Rightarrow> f v)"

section \<open>network/vbbnet.py: layers and blocks\<close>

text \<open>
  The numeric content of a parameter is not modelled.  A scalar of a parameter tensor
  is either as the layer's constructor left it (\<open>Default\<close>), a draw from a normal
  distribution with the given mean and standard deviation (\<open>Normal\<close>), or an explicit
  value (\<open>Val\<close>).  A weight tensor is only ever written as a whole, so one scalar
  stands for all of its entries; a bias is written by index and is a list.
\<close>

datatype scalar = Default | Normal real real | Val real

text \<open>
  The callables that the classes of the file store in their attributes:
  \<open>Conv3d in out kernel stride padding weight bias\<close>,
  \<open>ConvTranspose3d in out kernel stride weight bias\<close>,
  \<open>BatchNorm3d features weight bias\<close>, the activations, \<open>Dropout3d p\<close>,
  \<open>Softmax dim\<close>, and the function \<open>passthrough\<close>.
\<close>

datatype layer =
    Conv3d nat nat nat nat nat scalar "scalar list option"
  | ConvTranspose3d nat nat nat nat scalar "scalar list option"
  | BatchNorm3d nat scalar "scalar list"
  | ELU
  | ReLU
  | Dropout3d real
  | Softmax nat
  | passthrough

definition nn_Conv3d :: "nat \<Rightarrow> nat \<Rightarrow> nat \<Rightarrow> nat \<Rightarrow> nat \<Rightarrow> layer" where
  "nn_Conv3d cin cout k s p = Conv3d cin cout k s p Default (Some (replicate cout Default))"

definition nn_ConvTranspose3d :: "nat \<Rightarrow> nat \<Rightarrow> nat \<Rightarrow> nat \<Rightarrow> layer" where
  "nn_ConvTranspose3d cin cout k s =
     ConvTranspose3d cin cout k s Default (Some (replicate cout Default))"

definition nn_BatchNorm3d :: "nat \<Rightarrow> layer" where
  "nn_BatchNorm3d nf = BatchNorm3d nf Default (replicate nf Default)"

definition ELUCons :: "bool \<Rightarrow> nat \<Rightarrow> layer" where
  "ELUCons elu nchan = (if elu then ELU else ReLU)"

text \<open>
  \<open>LUConv act relu1 conv1 bn1\<close> and
  \<open>LUConv_bottle act relu1 conv1 bn1 relu2 conv2 bn2 relu3 conv3 bn3\<close>: the attributes
  in the order \<^verbatim>\<open>__init__\<close> assigns them.
\<close>

datatype block =
    LUConv bool layer layer layer
  | LUConv_bottle bool layer layer layer layer layer layer layer layer layer

definition LUConv_bottle_init :: "nat \<Rightarrow> bool \<Rightarrow> bool \<Rightarrow> block" where
  "LUConv_bottle_init nchan elu act =
     LUConv_bottle act
       (ELUCons elu (nchan div 4))
       (nn_Conv3d nchan (nchan div 4) 1 1 0)
       (nn_BatchNorm3d (nchan div 4))
       (ELUCons elu (nchan div 4))
       (nn_Conv3d (nchan div 4) (nchan div 4) 3 1 1)
       (nn_BatchNorm3d (nchan div 4))
       (ELUCons elu nchan)
       (nn_Conv3d (nchan div 4) nchan 1 1 0)
       (nn_BatchNorm3d nchan)"

definition LUConv_init :: "nat \<Rightarrow> bool \<Rightarrow> bool \<Rightarrow> block" where
  "LUConv_init nchan elu act =
     LUConv act (ELUCons elu nchan) (nn_Conv3d nchan nchan 3 1 1) (nn_BatchNorm3d nchan)"

text \<open>
  \<^verbatim>\<open>_make_nConv\<close>: the loop over \<^verbatim>\<open>range(depth)\<close> appends one block per index;
  \<open>[0..depth - 1]\<close> is empty when \<open>depth \<le> 0\<close>, as the range is.
\<close>

definition make_nConv :: "nat \<Rightarrow> int \<Rightarrow> bool \<Rightarrow> bool \<Rightarrow> block list" where
  "make_nConv nchan depth elu use_bottle =
     foldl (\<lambda>layers i.
        if use_bottle then
          (if i \<noteq> depth - 1 then layers @ [LUConv_bottle_init nchan elu True]
           else layers @ [LUConv_bottle_init nchan elu False])
        else
          (if i \<noteq> depth - 1 then layers @ [LUConv_init nchan elu True]
           else layers @ [LUConv_init nchan elu False]))
       [] [0..depth - 1]"

text \<open>What a block is built with: its kind, its \<^verbatim>\<open>act\<close> flag and the channel counts
  it takes and gives.\<close>

fun applies_final_activation :: "block \<Rightarrow> bool" where
  "applies_final_activation (LUConv act relu1 conv1 bn1) = act"
| "applies_final_activation (LUConv_bottle act relu1 conv1 bn1 relu2 conv2 bn2 relu3 conv3 bn3) = act"

fun is_bottle :: "block \<Rightarrow> bool" where
  "is_bottle (LUConv act relu1 conv1 bn1) = False"
| "is_bottle (LUConv_bottle act relu1 conv1 bn1 relu2 conv2 bn2 relu3 conv3 bn3) = True"

fun in_channels :: "layer \<Rightarrow> nat" where
  "in_channels (Conv3d cin cout k s p w b) = cin"
| "in_channels (ConvTranspose3d cin cout k s w b) = cin"
| "in_channels (BatchNorm3d nf w b) = nf"
| "in_channels l = 0"

fun out_channels :: "layer \<Rightarrow> nat" where
  "out_channels (Conv3d cin cout k s p w b) = cout"
| "out_channels (ConvTranspose3d cin cout k s w b) = cout"
| "out_channels (BatchNorm3d nf w b) = nf"
| "out_channels l = 0"

fun block_width :: "block \<Rightarrow> nat \<times> nat" where
  "block_width (LUConv act relu1 conv1 bn1) = (in_channels conv1, out_channels conv1)"
| "block_width (LUConv_bottle act relu1 conv1 bn1 relu2 conv2 bn2 relu3 conv3 bn3) =
     (in_channels conv1, out_channels conv3)"

section \<open>network/vbbnet.py: tensors and the calls of the layers\<close>

text \<open>
  A tensor is the five extents of its shape (batch, channels, depth, height, width)
  together with a content.  The floating-point values are not modelled: what a layer,
  a concatenation and an addition do to the content is given by a backend.  The
  backend \<open>shape_only\<close> keeps no content; the backend \<open>tracing\<close> records the expression
  that computed the tensor.
\<close>

datatype 'a tensor = Tensor nat nat nat nat nat 'a

record 'a backend =
  run_layer :: "layer \<Rightarrow> 'a \<Rightarrow> 'a"
  run_cat :: "'a \<Rightarrow> 'a \<Rightarrow> 'a"
  run_add :: "'a \<Rightarrow> 'a \<Rightarrow> 'a"

definition shape_only :: "unit backend" where
  "shape_only = \<lparr>run_layer = (\<lambda>l v. ()), run_cat = (\<lambda>a b. ()), run_add = (\<lambda>a b. ())\<rparr>"

datatype graph = Var string | Call layer graph | Cat graph graph | Add graph graph

definition tracing :: "graph backend" where
  "tracing = \<lparr>run_layer = Call, run_cat = Cat, run_add = Add\<rparr>"

text \<open>
  Calling a layer.  A convolution needs the channel count it was built for and an
  input no smaller than its kernel; its output extent is
  \<open>(x + 2 * padding - kernel) div stride + 1\<close>.  A transposed convolution (no padding)
  gives \<open>(x - 1) * stride + kernel\<close>.  Batch normalisation needs its channel count and,
  in training mode (the mode every module is constructed in and the training engine
  never leaves), more than one value per channel.  The other callables keep the shape,
  and \<open>passthrough\<close> returns its argument itself.
\<close>

fun call :: "'a backend \<Rightarrow> layer \<Rightarrow> 'a tensor \<Rightarrow> error + 'a tensor" where
  "call be (Conv3d cin cout k s p wt b) (Tensor n c d h w v) =
     (if c \<noteq> cin then Inl RuntimeError
      else if d + 2 * p < k \<or> h + 2 * p < k \<or> w + 2 * p < k then Inl RuntimeError
      else Inr (Tensor n cout ((d + 2 * p - k) div s + 1) ((h + 2 * p - k) div s + 1)
                  ((w + 2 * p - k) div s + 1) (run_layer be (Conv3d cin cout k s p wt b) v)))"
| "call be (ConvTranspose3d cin cout k s wt b) (Tensor n c d h w v) =
     (if c \<noteq> cin then Inl RuntimeError
      else if d = 0 \<or> h = 0 \<or> w = 0 then Inl RuntimeError
      else Inr (Tensor n cout ((d - 1) * s + k) ((h - 1) * s + k) ((w - 1) * s + k)
                  (run_layer be (ConvTranspose3d cin cout k s wt b) v)))"
| "call be (BatchNorm3d nf wt b) (Tensor n c d h w v) =
     (if c \<noteq> nf then Inl RuntimeError
      else if n * d * h * w = 1 then Inl ValueError
      else Inr (Tensor n c d h w (run_layer be (BatchNorm3d nf wt b) v)))"
| "call be ELU (Tensor n c d h w v) = Inr (Tensor n c d h w (run_layer be ELU v))"
| "call be ReLU (Tensor n c d h w v) = Inr (Tensor n c d h w (run_layer be ReLU v))"
| "call be (Dropout3d p) (Tensor n c d h w v) =
     Inr (Tensor n c d h w (run_layer be (Dropout3d p) v))"
| "call be (Softmax axis) (Tensor n c d h w v) =
     (if 5 \<le> axis then Inl IndexError
      else Inr (Tensor n c d h w (run_layer be (Softmax axis) v)))"
| "call be passthrough x = Inr x"

text \<open>\<^verbatim>\<open>torch.cat((a, b), 1)\<close>: every extent but the channels must agree.\<close>

fun torch_cat :: "'a backend \<Rightarrow> 'a tensor \<Rightarrow> 'a tensor \<Rightarrow> error + 'a tensor" where
  "torch_cat be (Tensor n1 c1 d1 h1 w1 v1) (Tensor n2 c2 d2 h2 w2 v2) =
     (if n1 = n2 \<and> d1 = d2 \<and> h1 = h2 \<and> w1 = w2
      then Inr (Tensor n1 (c1 + c2) d1 h1 w1 (run_cat be v1 v2))
      else Inl RuntimeError)"

text \<open>\<^verbatim>\<open>torch.add(a, b)\<close> broadcasts: two extents fit when they are equal or one is 1.\<close>

definition broadcast :: "nat \<Rightarrow> nat \<Rightarrow> nat option" where
  "broadcast a b =
     (if a = b then Some a else if a = 1 then Some b else if b = 1 then Some a else None)"

fun torch_add :: "'a backend \<Rightarrow> 'a tensor \<Rightarrow> 'a tensor \<Rightarrow> error + 'a tensor" where
  "torch_add be (Tensor n1 c1 d1 h1 w1 v1) (Tensor n2 c2 d2 h2 w2 v2) =
     (case broadcast n1 n2 of None \<Rightarrow> Inl RuntimeError | Some n \<Rightarrow>
      case broadcast c1 c2 of None \<Rightarrow> Inl RuntimeError | Some c \<Rightarrow>
      case broadcast d1 d2 of None \<Rightarrow> Inl RuntimeError | Some d \<Rightarrow>
      case broadcast h1 h2 of None \<Rightarrow> Inl RuntimeError | Some h \<Rightarrow>
      case broadcast w1 w2 of None \<Rightarrow> Inl RuntimeError | Some w \<Rightarrow>
        Inr (Tensor n c d h w (run_add be v1 v2)))"

text \<open>\<^verbatim>\<open>LUConv.forward\<close> and \<^verbatim>\<open>LUConv_bottle.forward\<close>.\<close>

fun block_forward :: "'a backend \<Rightarrow> block \<Rightarrow> 'a tensor \<Rightarrow> error + 'a tensor" where
  "block_forward be (LUConv act relu1 conv1 bn1) x =
     (if act then bindE (bindE (call be conv1 x) (call be bn1)) (call be relu1)
      else bindE (call be conv1 x) (call be bn1))"
| "block_forward be (LUConv_bottle act relu1 conv1 bn1 relu2 conv2 bn2 relu3 conv3 bn3) x =
     bindE (bindE (bindE (call be conv1 x) (call be bn1)) (call be relu1)) (\<lambda>out.
     bindE (bindE (bindE (call be conv2 out) (call be bn2)) (call be relu2)) (\<lambda>out.
     if act then bindE (bindE (call be conv3 out) (call be bn3)) (call be relu3)
     else bindE (call be conv3 out) (call be bn3)))"

text \<open>\<^verbatim>\<open>nn.Sequential(*layers)\<close> calls its blocks in order.\<close>

fun Sequential_forward :: "'a backend \<Rightarrow> block list \<Rightarrow> 'a tensor \<Rightarrow> error + 'a tensor" where
  "Sequential_forward be [] x = Inr x"
| "Sequential_forward be (m # ms) x = bindE (block_forward be m x) (Sequential_forward be ms)"

section \<open>network/vbbnet.py: the stages and the network\<close>

text \<open>
  One constructor per class, its arguments the attributes in the order \<^verbatim>\<open>__init__\<close>
  assigns them:
  \<open>InputTransition conv1 bn1 relu1\<close>,
  \<open>DownTransition down_conv bn1 do1 relu1 relu2 ops\<close>,
  \<open>UpTransition up_conv bn1 do1 do2 relu1 relu2 ops\<close>,
  \<open>OutputTransition conv1 bn1 conv2 relu1 softmax\<close>,
  \<open>PreBlock conv bn act\<close>, \<open>PostBlock up_conv up_bn up_act\<close>.
\<close>

datatype stage =
    InputTransition layer layer layer
  | DownTransition layer layer layer layer layer "block list"
  | UpTransition layer layer layer layer layer layer "block list"
  | OutputTransition layer layer layer layer layer
  | PreBlock layer layer layer
  | PostBlock layer layer layer

definition InputTransition_init :: "nat \<Rightarrow> bool \<Rightarrow> stage" where
  "InputTransition_init inChans elu =
     InputTransition (nn_Conv3d inChans 16 3 1 1) (nn_BatchNorm3d 16) (ELUCons elu 16)"

definition DownTransition_init :: "nat \<Rightarrow> int \<Rightarrow> bool \<Rightarrow> bool \<Rightarrow> bool \<Rightarrow> stage" where
  "DownTransition_init inChans nConvs elu dropout use_bottle =
     (let outChans = 2 * inChans in
      DownTransition (nn_Conv3d inChans outChans 2 2 0) (nn_BatchNorm3d outChans) passthrough
        (ELUCons elu outChans) (ELUCons elu outChans)
        (make_nConv outChans nConvs elu use_bottle))"

definition UpTransition_init :: "nat \<Rightarrow> nat \<Rightarrow> int \<Rightarrow> bool \<Rightarrow> bool \<Rightarrow> bool \<Rightarrow> stage" where
  "UpTransition_init inChans outChans nConvs elu dropout use_bottle =
     UpTransition (nn_ConvTranspose3d inChans (outChans div 2) 2 2)
       (nn_BatchNorm3d (outChans div 2)) passthrough (Dropout3d (2 / 10))
       (ELUCons elu (outChans div 2)) (ELUCons elu outChans)
       (make_nConv outChans nConvs elu use_bottle)"

definition OutputTransition_init :: "nat \<Rightarrow> nat \<Rightarrow> bool \<Rightarrow> stage" where
  "OutputTransition_init inChans outChans elu =
     OutputTransition (nn_Conv3d inChans outChans 3 1 1) (nn_BatchNorm3d outChans)
       (nn_Conv3d outChans outChans 1 1 0) (ELUCons elu outChans) (Softmax 1)"

definition PreBlock_init :: "nat \<Rightarrow> nat \<Rightarrow> bool \<Rightarrow> stage" where
  "PreBlock_init cin cout elu =
     PreBlock (nn_Conv3d cin cout 2 2 0) (nn_BatchNorm3d cout) (ELUCons elu cout)"

definition PostBlock_init :: "nat \<Rightarrow> nat \<Rightarrow> bool \<Rightarrow> stage" where
  "PostBlock_init cin cout elu =
     PostBlock (nn_ConvTranspose3d cin cout 2 2) (nn_BatchNorm3d cout) (ELUCons elu cout)"

text \<open>
  The \<^verbatim>\<open>forward\<close> methods of one tensor argument.  \<^verbatim>\<open>UpTransition.forward\<close> and
  \<^verbatim>\<open>PostBlock.forward\<close> take two; calling them with one is a \<open>TypeError\<close>.
\<close>

fun forward1 :: "'a backend \<Rightarrow> stage \<Rightarrow> 'a tensor \<Rightarrow> error + 'a tensor" where
  "forward1 be (InputTransition conv1 bn1 relu1) x =
     bindE (bindE (call be conv1 x) (call be bn1)) (\<lambda>out.
     call be relu1 out)"
| "forward1 be (DownTransition down_conv bn1 do1 relu1 relu2 ops) x =
     bindE (bindE (bindE (call be down_conv x) (call be bn1)) (call be relu1)) (\<lambda>down.
     bindE (call be do1 down) (\<lambda>out.
     bindE (Sequential_forward be ops out) (\<lambda>out.
     bindE (torch_add be out down) (call be relu2))))"
| "forward1 be (OutputTransition conv1 bn1 conv2 relu1 softmax) x =
     bindE (bindE (bindE (call be conv1 x) (call be bn1)) (call be relu1)) (\<lambda>out.
     bindE (call be conv2 out) (\<lambda>out.
     call be softmax out))"
| "forward1 be (PreBlock conv bn act) x =
     bindE (bindE (call be conv x) (call be bn)) (call be act)"
| "forward1 be (UpTransition up_conv bn1 do1 do2 relu1 relu2 ops) x = Inl TypeError"
| "forward1 be (PostBlock up_conv up_bn up_act) x = Inl TypeError"

text \<open>The \<^verbatim>\<open>forward\<close> methods of two tensor arguments.\<close>

fun forward2 :: "'a backend \<Rightarrow> stage \<Rightarrow> 'a tensor \<Rightarrow> 'a tensor \<Rightarrow> error + 'a tensor" where
  "forward2 be (UpTransition up_conv bn1 do1 do2 relu1 relu2 ops) x skipx =
     bindE (call be do1 x) (\<lambda>out.
     bindE (call be do2 skipx) (\<lambda>skipxdo.
     bindE (bindE (bindE (call be up_conv out) (call be bn1)) (call be relu1)) (\<lambda>out.
     bindE (torch_cat be out skipxdo) (\<lambda>xcat.
     bindE (Sequential_forward be ops xcat) (\<lambda>out.
     bindE (torch_add be out xcat) (call be relu2))))))"
| "forward2 be (PostBlock up_conv up_bn up_act) inp skip =
     bindE (bindE (bindE (call be up_conv inp) (call be up_bn)) (call be up_act)) (\<lambda>out.
     torch_cat be out skip)"
| "forward2 be (InputTransition conv1 bn1 relu1) x y = Inl TypeError"
| "forward2 be (DownTransition down_conv bn1 do1 relu1 relu2 ops) x y = Inl TypeError"
| "forward2 be (OutputTransition conv1 bn1 conv2 relu1 softmax) x y = Inl TypeError"
| "forward2 be (PreBlock conv bn act) x y = Inl TypeError"

text \<open>
  A \<^verbatim>\<open>SegmentationNet\<close> object is the dictionary of the attributes that \<^verbatim>\<open>__init__\<close>
  assigns, in that order.  Reading an attribute that was never assigned raises
  \<open>AttributeError\<close>.
\<close>

type_synonym SegmentationNet = "(string \<times> stage) list"

definition SegmentationNet_init :: "nat \<Rightarrow> nat \<Rightarrow> bool \<Rightarrow> SegmentationNet" where
  "SegmentationNet_init cin cout elu =
     [(''pre_block'', PreBlock_init cin cin elu),
      (''in_tr'', InputTransition_init cin elu),
      (''down_tr32'', DownTransition_init 16 2 elu False False),
      (''down_tr64'', DownTransition_init 32 3 elu False True),
      (''down_tr128'', DownTransition_init 64 4 elu True True),
      (''down_tr256'', DownTransition_init 128 4 elu True True),
      (''up_tr256'', UpTransition_init 256 256 4 elu True True),
      (''up_tr128'', UpTransition_init 256 128 4 elu True True),
      (''up_tr64'', UpTransition_init 128 64 3 elu False False),
      (''up_tr32'', UpTransition_init 64 32 2 elu False False),
      (''pro_block'', OutputTransition_init 32 cout elu),
      (''post_block'', PostBlock_init cout cout elu),
      (''out_tr'', OutputTransition_init (cin + cout) cout elu)]"

definition getattr :: "SegmentationNet \<Rightarrow> string \<Rightarrow> error + stage" where
  "getattr self name =
     (case map_of self name of None \<Rightarrow> Inl (AttributeError name) | Some m \<Rightarrow> Inr m)"

definition call_attr1 ::
  "'a backend \<Rightarrow> SegmentationNet \<Rightarrow> string \<Rightarrow> 'a tensor \<Rightarrow> error + 'a tensor" where
  "call_attr1 be self name x = bindE (getattr self name) (\<lambda>m. forward1 be m x)"

definition call_attr2 ::
  "'a backend \<Rightarrow> SegmentationNet \<Rightarrow> string \<Rightarrow> 'a tensor \<Rightarrow> 'a tensor \<Rightarrow> error + 'a tensor" where
  "call_attr2 be self name x y = bindE (getattr self name) (\<lambda>m. forward2 be m x y)"

definition SegmentationNet_forward ::
  "'a backend \<Rightarrow> SegmentationNet \<Rightarrow> 'a tensor \<Rightarrow> error + 'a tensor" where
  "SegmentationNet_forward be self x =
     bindE (call_attr1 be self ''pre_block'' x) (\<lambda>dout.
     bindE (call_attr1 be self ''in_tr'' dout) (\<lambda>out16.
     bindE (call_attr1 be self ''down_tr32'' out16) (\<lambda>out32.
     bindE (call_attr1 be self ''down_tr64'' out32) (\<lambda>out64.
     bindE (call_attr1 be self ''down_tr128'' out64) (\<lambda>out128.
     bindE (call_attr1 be self ''down_tr256'' out128) (\<lambda>out256.
     bindE (call_attr2 be self ''up_tr256'' out256 out128) (\<lambda>out.
     bindE (call_attr2 be self ''up_tr128'' out out64) (\<lambda>out.
     bindE (call_attr2 be self ''up_tr64'' out out32) (\<lambda>out.
     bindE (call_attr2 be self ''up_tr32'' out out16) (\<lambda>out.
     bindE (call_attr1 be self ''pro_block'' out) (\<lambda>out.
     bindE (call_attr2 be self ''post_block'' out x) (\<lambda>out.
     call_attr1 be self ''out_block'' out))))))))))))"

section \<open>network/vbbnet.py: what a traced tensor shows\<close>

text \<open>
  Observers of the expression that the backend \<open>tracing\<close> records: the inputs that
  reach the result through a \<open>Dropout3d\<close> call (\<open>dropped\<close>), the inputs that reach it
  along a path with no such call (\<open>undropped\<close>), the arguments of the transposed
  convolutions, and the pairs of operands of the concatenations.
\<close>

fun content :: "'a tensor \<Rightarrow> 'a" where
  "content (Tensor n c d h w v) = v"

fun leaves :: "graph \<Rightarrow> string set" where
  "leaves (Var x) = {x}"
| "leaves (Call l g) = leaves g"
| "leaves (Cat a b) = leaves a \<union> leaves b"
| "leaves (Add a b) = leaves a \<union> leaves b"

fun is_dropout :: "layer \<Rightarrow> bool" where
  "is_dropout (Dropout3d p) = True"
| "is_dropout l = False"

fun is_transposed :: "layer \<Rightarrow> bool" where
  "is_transposed (ConvTranspose3d cin cout k s wt b) = True"
| "is_transposed l = False"

fun dropped :: "graph \<Rightarrow> string set" where
  "dropped (Var x) = {}"
| "dropped (Call l g) = (if is_dropout l then leaves g else dropped g)"
| "dropped (Cat a b) = dropped a \<union> dropped b"
| "dropped (Add a b) = dropped a \<union> dropped b"

fun undropped :: "graph \<Rightarrow> string set" where
  "undropped (Var x) = {x}"
| "undropped (Call l g) = (if is_dropout l then {} else undropped g)"
| "undropped (Cat a b) = undropped a \<union> undropped b"
| "undropped (Add a b) = undropped a \<union> undropped b"

fun transposed_inputs :: "graph \<Rightarrow> graph set" where
  "transposed_inputs (Var x) = {}"
| "transposed_inputs (Call l g) = (if is_transposed l then {g} else {}) \<union> transposed_inputs g"
| "transposed_inputs (Cat a b) = transposed_inputs a \<union> transposed_inputs b"
| "transposed_inputs (Add a b) = transposed_inputs a \<union> transposed_inputs b"

fun cat_operands :: "graph \<Rightarrow> (graph \<times> graph) set" where
  "cat_operands (Var x) = {}"
| "cat_operands (Call l g) = cat_operands g"
| "cat_operands (Cat a b) = {(a, b)} \<union> cat_operands a \<union> cat_operands b"
| "cat_operands (Add a b) = cat_operands a \<union> cat_operands b"

text \<open>
  A layer is \<open>plain\<close> when it is neither a dropout, nor a transposed convolution, nor
  \<open>passthrough\<close>; a tensor is \<open>stacked\<close> on an expression when calls of plain layers
  lead from the expression to its content.
\<close>

fun block_layers :: "block \<Rightarrow> layer list" where
  "block_layers (LUConv act relu1 conv1 bn1) = [relu1, conv1, bn1]"
| "block_layers (LUConv_bottle act relu1 conv1 bn1 relu2 conv2 bn2 relu3 conv3 bn3) =
     [relu1, conv1, bn1, relu2, conv2, bn2, relu3, conv3, bn3]"

definition plain :: "layer \<Rightarrow> bool" where
  "plain l \<longleftrightarrow> \<not> is_dropout l \<and> \<not> is_transposed l \<and> l \<noteq> passthrough"

definition stacked :: "graph \<Rightarrow> graph tensor \<Rightarrow> bool" where
  "stacked g t \<longleftrightarrow> (\<exists>ls. list_all plain ls \<and> content t = foldr Call ls g)"

section \<open>network/vbbnet.py: the downsampling factor of the encoder\<close>

text \<open>
  The factor by which a stage divides the spatial extents is the product of the strides
  of the convolutions on its path.  The encoder is the path of \<^verbatim>\<open>forward\<close> from the
  input to the deepest feature map: \<^verbatim>\<open>pre_block\<close>, \<^verbatim>\<open>in_tr\<close> and the four
  \<^verbatim>\<open>down_tr\<close> stages.
\<close>

fun layer_stride :: "layer \<Rightarrow> nat" where
  "layer_stride (Conv3d cin cout k s p wt b) = s"
| "layer_stride l = 1"

fun block_stride :: "block \<Rightarrow> nat" where
  "block_stride (LUConv act relu1 conv1 bn1) = layer_stride conv1"
| "block_stride (LUConv_bottle act relu1 conv1 bn1 relu2 conv2 bn2 relu3 conv3 bn3) =
     layer_stride conv1 * layer_stride conv2 * layer_stride conv3"

fun stage_stride :: "stage \<Rightarrow> nat" where
  "stage_stride (InputTransition conv1 bn1 relu1) = layer_stride conv1"
| "stage_stride (DownTransition down_conv bn1 do1 relu1 relu2 ops) =
     layer_stride down_conv * prod_list (map block_stride ops)"
| "stage_stride (PreBlock conv bn act) = layer_stride conv"
| "stage_stride m = 1"

definition encoder_stride :: "SegmentationNet \<Rightarrow> error + nat" where
  "encoder_stride self =
     bindE (getattr self ''pre_block'') (\<lambda>pre_block.
     bindE (getattr self ''in_tr'') (\<lambda>in_tr.
     bindE (getattr self ''down_tr32'') (\<lambda>down_tr32.
     bindE (getattr self ''down_tr64'') (\<lambda>down_tr64.
     bindE (getattr self ''down_tr128'') (\<lambda>down_tr128.
     bindE (getattr self ''down_tr256'') (\<lambda>down_tr256.
       Inr (stage_stride pre_block * stage_stride in_tr * stage_stride down_tr32
            * stage_stride down_tr64 * stage_stride down_tr128 * stage_stride down_tr256)))))))"

section \<open>network/vbbnet.py: initialisation\<close>

text \<open>\<^verbatim>\<open>sub in s\<close> on strings.\<close>

fun py_in :: "string \<Rightarrow> string \<Rightarrow> bool" where
  "py_in sub [] = (sub = [])"
| "py_in sub (c # cs) = (take (length sub) (c # cs) = sub \<or> py_in sub cs)"

fun classname :: "layer \<Rightarrow> string" where
  "classname (Conv3d cin cout k s p wt b) = ''Conv3d''"
| "classname (ConvTranspose3d cin cout k s wt b) = ''ConvTranspose3d''"
| "classname (BatchNorm3d nf wt b) = ''BatchNorm3d''"
| "classname ELU = ''ELU''"
| "classname ReLU = ''ReLU''"
| "classname (Dropout3d p) = ''Dropout3d''"
| "classname (Softmax axis) = ''Softmax''"
| "classname passthrough = ''function''"

text \<open>\<^verbatim>\<open>m.weight.data.normal_(mean, std)\<close>: every entry of the weight is a fresh draw.\<close>

fun weight_normal :: "real \<Rightarrow> real \<Rightarrow> layer \<Rightarrow> layer" where
  "weight_normal mean std (Conv3d cin cout k s p wt b) = Conv3d cin cout k s p (Normal mean std) b"
| "weight_normal mean std (ConvTranspose3d cin cout k s wt b) =
     ConvTranspose3d cin cout k s (Normal mean std) b"
| "weight_normal mean std (BatchNorm3d nf wt b) = BatchNorm3d nf (Normal mean std) b"
| "weight_normal mean std l = l"

text \<open>\<^verbatim>\<open>m.bias.data.zero_()\<close>, for a convolution under \<^verbatim>\<open>if m.bias is not None\<close>.\<close>

fun bias_zero :: "layer \<Rightarrow> layer" where
  "bias_zero (Conv3d cin cout k s p wt b) = Conv3d cin cout k s p wt (map_option (map (\<lambda>x. Val 0)) b)"
| "bias_zero (ConvTranspose3d cin cout k s wt b) =
     ConvTranspose3d cin cout k s wt (map_option (map (\<lambda>x. Val 0)) b)"
| "bias_zero (BatchNorm3d nf wt b) = BatchNorm3d nf wt (map (\<lambda>x. Val 0) b)"
| "bias_zero l = l"

definition gaussian_weight_init :: "layer \<Rightarrow> real \<Rightarrow> real \<Rightarrow> layer" where
  "gaussian_weight_init m conv_std bn_std =
     (if py_in ''Conv3d'' (classname m) \<or> py_in ''ConvTranspose3d'' (classname m)
      then bias_zero (weight_normal 0 conv_std m)
      else if py_in ''BatchNorm'' (classname m)
      then bias_zero (weight_normal 1 bn_std m)
      else m)"

text \<open>
  \<^verbatim>\<open>net.apply(fn)\<close> calls \<^verbatim>\<open>fn\<close> on every module of the network.  The function
  \<open>passthrough\<close> stored in a dropout slot is not a module and is not visited.  The
  container classes (\<^verbatim>\<open>LUConv\<close>, \<^verbatim>\<open>DownTransition\<close>, ...) are visited too, but none of
  their names contains \<^verbatim>\<open>Conv3d\<close>, \<^verbatim>\<open>ConvTranspose3d\<close> or \<^verbatim>\<open>BatchNorm\<close>, so the
  initialiser leaves them as they are.
\<close>

definition apply_module :: "(layer \<Rightarrow> layer) \<Rightarrow> layer \<Rightarrow> layer" where
  "apply_module fn l = (if l = passthrough then l else fn l)"

fun block_apply :: "(layer \<Rightarrow> layer) \<Rightarrow> block \<Rightarrow> block" where
  "block_apply fn (LUConv act relu1 conv1 bn1) =
     LUConv act (apply_module fn relu1) (apply_module fn conv1) (apply_module fn bn1)"
| "block_apply fn (LUConv_bottle act relu1 conv1 bn1 relu2 conv2 bn2 relu3 conv3 bn3) =
     LUConv_bottle act (apply_module fn relu1) (apply_module fn conv1) (apply_module fn bn1)
       (apply_module fn relu2) (apply_module fn conv2) (apply_module fn bn2)
       (apply_module fn relu3) (apply_module fn conv3) (apply_module fn bn3)"

fun stage_apply :: "(layer \<Rightarrow> layer) \<Rightarrow> stage \<Rightarrow> stage" where
  "stage_apply fn (InputTransition conv1 bn1 relu1) =
     InputTransition (apply_module fn conv1) (apply_module fn bn1) (apply_module fn relu1)"
| "stage_apply fn (DownTransition down_conv bn1 do1 relu1 relu2 ops) =
     DownTransition (apply_module fn down_conv) (apply_module fn bn1) (apply_module fn do1)
       (apply_module fn relu1) (apply_module fn relu2) (map (block_apply fn) ops)"
| "stage_apply fn (UpTransition up_conv bn1 do1 do2 relu1 relu2 ops) =
     UpTransition (apply_module fn up_conv) (apply_module fn bn1) (apply_module fn do1)
       (apply_module fn do2) (apply_module fn relu1) (apply_module fn relu2)
       (map (block_apply fn) ops)"
| "stage_apply fn (OutputTransition conv1 bn1 conv2 relu1 softmax) =
     OutputTransition (apply_module fn conv1) (apply_module fn bn1) (apply_module fn conv2)
       (apply_module fn relu1) (apply_module fn softmax)"
| "stage_apply fn (PreBlock conv bn act) =
     PreBlock (apply_module fn conv) (apply_module fn bn) (apply_module fn act)"
| "stage_apply fn (PostBlock up_conv up_bn up_act) =
     PostBlock (apply_module fn up_conv) (apply_module fn up_bn) (apply_module fn up_act)"

definition net_apply :: "(layer \<Rightarrow> layer) \<Rightarrow> SegmentationNet \<Rightarrow> SegmentationNet" where
  "net_apply fn net = map (\<lambda>(name, m). (name, stage_apply fn m)) net"

text \<open>
  \<^verbatim>\<open>-np.log((1 - obj_p) / obj_p)\<close> over the real numbers.  Dividing by a zero
  \<^verbatim>\<open>obj_p\<close> raises; a quotient that is zero or negative gives \<open>inf\<close> or \<open>nan\<close>.
\<close>

definition focal_bias :: "real \<Rightarrow> error + real" where
  "focal_bias obj_p =
     (if obj_p = 0 then Inl ZeroDivisionError
      else if (1 - obj_p) / obj_p \<le> 0 then Inl NonFinite
      else Inr (- ln ((1 - obj_p) / obj_p)))"

text \<open>\<^verbatim>\<open>m.bias.data[i] = v\<close>.\<close>

fun set_bias :: "nat \<Rightarrow> real \<Rightarrow> layer \<Rightarrow> error + layer" where
  "set_bias i v (Conv3d cin cout k s p wt (Some b)) =
     (if i < length b then Inr (Conv3d cin cout k s p wt (Some (b[i := Val v])))
      else Inl IndexError)"
| "set_bias i v (Conv3d cin cout k s p wt None) = Inl (AttributeError ''data'')"
| "set_bias i v (ConvTranspose3d cin cout k s wt (Some b)) =
     (if i < length b then Inr (ConvTranspose3d cin cout k s wt (Some (b[i := Val v])))
      else Inl IndexError)"
| "set_bias i v (ConvTranspose3d cin cout k s wt None) = Inl (AttributeError ''data'')"
| "set_bias i v (BatchNorm3d nf wt b) =
     (if i < length b then Inr (BatchNorm3d nf wt (b[i := Val v])) else Inl IndexError)"
| "set_bias i v l = Inl (AttributeError ''bias'')"

text \<open>\<^verbatim>\<open>m.conv2\<close> updated in place: of the stage classes only \<^verbatim>\<open>OutputTransition\<close> has an
  attribute \<^verbatim>\<open>conv2\<close>.\<close>

fun update_conv2 :: "(layer \<Rightarrow> error + layer) \<Rightarrow> stage \<Rightarrow> error + stage" where
  "update_conv2 f (OutputTransition conv1 bn1 conv2 relu1 softmax) =
     bindE (f conv2) (\<lambda>conv2'. Inr (OutputTransition conv1 bn1 conv2' relu1 softmax))"
| "update_conv2 f m = Inl (AttributeError ''conv2'')"

fun replace_attr :: "SegmentationNet \<Rightarrow> string \<Rightarrow> stage \<Rightarrow> SegmentationNet" where
  "replace_attr [] name m = []"
| "replace_attr ((k, x) # rest) name m =
     (if k = name then (k, m) # rest else (k, x) # replace_attr rest name m)"

text \<open>
  \<^verbatim>\<open>vnet_focal_init\<close>.  The right-hand side of the assignment is computed first, then
  \<^verbatim>\<open>net.out_block.conv2.bias.data\<close> is read and its entry 1 is written.
\<close>

definition vnet_focal_init :: "SegmentationNet \<Rightarrow> real \<Rightarrow> error + SegmentationNet" where
  "vnet_focal_init net obj_p =
     (let net = net_apply (\<lambda>m. gaussian_weight_init m (1 / 100) (1 / 100)) net in
      bindE (focal_bias obj_p) (\<lambda>v.
      bindE (getattr net ''out_block'') (\<lambda>out_block.
      bindE (update_conv2 (set_bias 1 v) out_block) (\<lambda>out_block'.
      Inr (replace_attr net ''out_block'' out_block')))))"

text \<open>A network whose final output block is stored as \<^verbatim>\<open>out_block\<close>, to evaluate on.\<close>

definition one_stage_net :: SegmentationNet where
  "one_stage_net = [(''out_block'', OutputTransition_init 32 2 False)]"

section \<open>train.py: the training engine\<close>

text \<open>The options of the configuration that the engine's control flow reads.\<close>

record config =
  resume_epoch :: int
  clear_start_epoch :: bool
  crop_size :: "int list"
  batchsize :: int
  plot_snapshot :: int
  save_epochs :: int
  loss_name :: "string list"
  loss_weight :: "real list"

text \<open>
  What the engine gets from outside the two files: the answers of the operating
  system and of the operator, the lengths of the dataset and of the data loader, for
  each iteration whether the call of the network raises, and the value of
  \<^verbatim>\<open>scheduler.last_epoch\<close> once the scheduler is constructed.
\<close>

record env =
  cuda_available :: bool
  config_isfile :: bool
  save_dir_isdir :: bool
  typed_choice :: string
  dataset_len :: nat
  loader_len :: nat
  net_call :: "nat \<Rightarrow> error option"
  scheduler_start :: int

text \<open>
  What a run does, in order.  \<open>SchedulerStep e\<close> and \<open>LogMetrics e\<close> carry the derived
  epoch index of the batch, \<open>PlotProgress b\<close> the batch counter, and
  \<open>SaveCheckpoint e b\<close> the two arguments \<^verbatim>\<open>epoch_idx\<close> and \<^verbatim>\<open>batch_idx\<close> of
  \<^verbatim>\<open>save_checkpoint\<close>.
\<close>

datatype event =
    RemoveSaveDir
  | FetchBatch
  | ZeroGrad
  | Forward
  | DiceScore
  | CalculateLoss nat
  | Backward
  | OptimizerStep
  | SchedulerStep int
  | PlotProgress int
  | LogMetrics int
  | SaveCheckpoint int int

record loop_state =
  batch_idx :: int
  last_epoch :: int
  last_save_epoch :: int
  events :: "event list"

definition max_stride :: "int list" where
  "max_stride = [16, 16, 16]"

text \<open>
  \<^verbatim>\<open>np.all(np.array(crop_size) % np.array(max_stride) == 0)\<close>: element by element
  when the lengths agree, a single crop extent is broadcast, any other length does
  not broadcast.
\<close>

definition crop_divisible :: "int list \<Rightarrow> int list \<Rightarrow> error + bool" where
  "crop_divisible crop ms =
     (if length crop = length ms then Inr (list_all2 (\<lambda>c m. c mod m = 0) crop ms)
      else if length crop = 1 then Inr (list_all (\<lambda>m. hd crop mod m = 0) ms)
      else Inl ValueError)"

text \<open>
  The prompt about an existing save directory: \<^verbatim>\<open>yes\<close> deletes it, \<^verbatim>\<open>no\<close> keeps it,
  anything else is a \<open>ValueError\<close>.  \<open>typed_choice\<close> is the line typed, in lower case.
\<close>

definition confirm_save_dir :: "env \<Rightarrow> config \<Rightarrow> error + event list" where
  "confirm_save_dir ev cfg =
     (if resume_epoch cfg < 0 \<and> save_dir_isdir ev then
        (if typed_choice ev = ''yes'' then Inr [RemoveSaveDir]
         else if typed_choice ev = ''no'' then Inr []
         else Inl ValueError)
      else Inr [])"

text \<open>
  The resume branch.  The argument of \<^verbatim>\<open>torch.load\<close> reads the attribute \<^verbatim>\<open>cfg\<close> of
  the string \<^verbatim>\<open>'chk_{}'\<close>, which a string does not have, so the branch raises before
  anything is loaded; the assignment after it gives the batch offset 0.  The result is
  the pair \<^verbatim>\<open>(last_save_epoch, batch_start)\<close>.
\<close>

definition resume :: "config \<Rightarrow> error + (int \<times> int)" where
  "resume cfg =
     (if 0 \<le> resume_epoch cfg then
        bindE (Inl (AttributeError ''cfg'') :: error + unit) (\<lambda>net. Inr (resume_epoch cfg, 0))
      else Inr (0, 0))"

text \<open>\<^verbatim>\<open>epoch_idx = batch_idx * cfg.train.batchsize // len(dataset)\<close>; floor division, as
  \<open>div\<close> on \<open>int\<close> is.\<close>

definition epoch_of :: "config \<Rightarrow> nat \<Rightarrow> int \<Rightarrow> error + int" where
  "epoch_of cfg n b =
     (if n = 0 then Inl ZeroDivisionError else Inr (b * batchsize cfg div int n))"

text \<open>The loss terms that the flags of \<^verbatim>\<open>cfg.loss.name\<close> enable, in the order the engine
  appends them.\<close>

definition loss_func_list :: "config \<Rightarrow> string list" where
  "loss_func_list cfg =
     (if ''Dice'' \<in> set (loss_name cfg) then [''MultiDiceLoss''] else [])
     @ (if ''Focal'' \<in> set (loss_name cfg) then [''FocalLoss''] else [])
     @ (if ''Boundary'' \<in> set (loss_name cfg) then [''BoundarySoftDice''] else [])"

definition emit :: "event list \<Rightarrow> loop_state \<Rightarrow> loop_state" where
  "emit es st = st\<lparr>events := events st @ es\<rparr>"

text \<open>Running on after a part of the iteration unless it raised.\<close>

definition and_then ::
  "error option \<times> loop_state \<Rightarrow> (loop_state \<Rightarrow> error option \<times> loop_state)
     \<Rightarrow> error option \<times> loop_state" where
  "and_then r f = (case r of (Some e, st) \<Rightarrow> (Some e, st) | (None, st) \<Rightarrow> f st)"

text \<open>Lines 302 to 313: fetch the batch, clear the gradients, call the network, compute the
  Dice score.\<close>

definition forward_pass :: "env \<Rightarrow> nat \<Rightarrow> loop_state \<Rightarrow> error option \<times> loop_state" where
  "forward_pass ev i st =
     (case net_call ev i of
        Some e \<Rightarrow> (Some e, emit [FetchBatch, ZeroGrad] st)
      | None \<Rightarrow> (None, emit [FetchBatch, ZeroGrad, Forward, DiceScore] st))"

text \<open>Lines 319 to 344: build the list of loss terms, assert that it is as long as the list
  of weights, compute the loss, propagate back, step the optimizer.  With no loss term
  and no weight \<^verbatim>\<open>calculate_loss\<close> ends in \<^verbatim>\<open>total_loss.cuda()\<close> on the integer 0,
  which has no such attribute.\<close>

definition loss_and_update :: "config \<Rightarrow> loop_state \<Rightarrow> error option \<times> loop_state" where
  "loss_and_update cfg st =
     (if length (loss_func_list cfg) \<noteq> length (loss_weight cfg) then
        (Some (AssertionError ''number of valid losses should equal to that of given weights''),
         st)
      else if loss_func_list cfg = [] then (Some (AttributeError ''cuda''), st)
      else (None, emit [CalculateLoss (length (loss_func_list cfg)), Backward, OptimizerStep] st))"

text \<open>Lines 346 and 347: \<^verbatim>\<open>if epoch_idx != scheduler.last_epoch: scheduler.step()\<close>; a step
  adds one to \<^verbatim>\<open>scheduler.last_epoch\<close>.\<close>

definition step_scheduler :: "int \<Rightarrow> loop_state \<Rightarrow> loop_state" where
  "step_scheduler epoch_idx st =
     (if epoch_idx \<noteq> last_epoch st
      then emit [SchedulerStep epoch_idx] (st\<lparr>last_epoch := last_epoch st + 1\<rparr>)
      else st)"

text \<open>Lines 355 to 359: \<^verbatim>\<open>if (batch_idx + 1) % cfg.train.plot_snapshot == 0\<close>.\<close>

definition plot_if_due :: "config \<Rightarrow> loop_state \<Rightarrow> error option \<times> loop_state" where
  "plot_if_due cfg st =
     (if plot_snapshot cfg = 0 then (Some ZeroDivisionError, st)
      else if (batch_idx st + 1) mod plot_snapshot cfg = 0
      then (None, emit [PlotProgress (batch_idx st)] st)
      else (None, st))"

text \<open>Lines 368 to 371: the checkpoint.  The remainder is only computed when
  \<^verbatim>\<open>epoch_idx != 0\<close>.\<close>

definition save_if_due :: "config \<Rightarrow> int \<Rightarrow> loop_state \<Rightarrow> error option \<times> loop_state" where
  "save_if_due cfg epoch_idx st =
     (if epoch_idx \<noteq> 0 then
        (if save_epochs cfg = 0 then (Some ZeroDivisionError, st)
         else if epoch_idx mod save_epochs cfg = 0 then
           (if last_save_epoch st \<noteq> epoch_idx
            then (None, emit [SaveCheckpoint epoch_idx (batch_idx st)]
                          (st\<lparr>last_save_epoch := epoch_idx\<rparr>))
            else (None, st))
         else (None, st))
      else (None, st))"

text \<open>One iteration of the loop over the batches.\<close>

definition train_step :: "config \<Rightarrow> env \<Rightarrow> nat \<Rightarrow> loop_state \<Rightarrow> error option \<times> loop_state" where
  "train_step cfg ev i st =
     and_then (forward_pass ev i st) (\<lambda>st.
     case epoch_of cfg (dataset_len ev) (batch_idx st) of
       Inl e \<Rightarrow> (Some e, st)
     | Inr epoch_idx \<Rightarrow>
     and_then (loss_and_update cfg st) (\<lambda>st.
     and_then (plot_if_due cfg ((step_scheduler epoch_idx st)\<lparr>batch_idx := batch_idx st + 1\<rparr>)) (\<lambda>st.
     save_if_due cfg epoch_idx (emit [LogMetrics epoch_idx] st))))"

text \<open>\<^verbatim>\<open>for i in range(len(data_loader))\<close>: an exception ends the run.\<close>

fun train_loop :: "config \<Rightarrow> env \<Rightarrow> nat list \<Rightarrow> loop_state \<Rightarrow> error option \<times> loop_state" where
  "train_loop cfg ev [] st = (None, st)"
| "train_loop cfg ev (i # is) st =
     (case train_step cfg ev i st of
        (Some e, st') \<Rightarrow> (Some e, st')
      | (None, st') \<Rightarrow> train_loop cfg ev is st')"

text \<open>
  \<^verbatim>\<open>train\<close>: the checks before the loop, the resume branch, and the loop.  The result
  is the exception that ended the run, if any, and the state the run reached.
\<close>

definition train :: "env \<Rightarrow> config \<Rightarrow> error option \<times> loop_state" where
  "train ev cfg =
     (let st0 = \<lparr>batch_idx = 0, last_epoch = scheduler_start ev, last_save_epoch = 0,
                 events = []\<rparr> in
      if \<not> cuda_available ev then
        (Some (AssertionError ''CUDA is not available! Please check nvidia driver!''), st0)
      else if \<not> config_isfile ev then (Some (AssertionError ''Config not found''), st0)
      else
        case confirm_save_dir ev cfg of
          Inl e \<Rightarrow> (Some e, st0)
        | Inr es \<Rightarrow>
       (let st1 = emit es st0 in
        case crop_divisible (crop_size cfg) max_stride of
          Inl e \<Rightarrow> (Some e, st1)
        | Inr divisible \<Rightarrow>
        if \<not> divisible then
          (Some (AssertionError ''crop size not divisible by max stride''), st1)
        else
          case resume cfg of
            Inl e \<Rightarrow> (Some e, st1)
          | Inr (last_save, batch_start) \<Rightarrow>
              train_loop cfg ev [0..<loader_len ev]
                (st1\<lparr>batch_idx := (if clear_start_epoch cfg then 0 else batch_start),
                      last_save_epoch := last_save\<rparr>)))"

text \<open>What a run shows of its checkpoints and of its scheduler: the epoch indices of the
  saved checkpoints and of the scheduler steps, in order.\<close>

fun saved_epochs :: "event list \<Rightarrow> int list" where
  "saved_epochs [] = []"
| "saved_epochs (SaveCheckpoint e b # es) = e # saved_epochs es"
| "saved_epochs (x # es) = saved_epochs es"

fun scheduler_steps :: "event list \<Rightarrow> int list" where
  "scheduler_steps [] = []"
| "scheduler_steps (SchedulerStep e # es) = e # scheduler_steps es"
| "scheduler_steps (x # es) = scheduler_steps es"

text \<open>
  The parts of the loop state that the checkpoint logic and the scheduler logic read,
  and the invariants that every iteration keeps.  A saved epoch index is the derived
  epoch index of an earlier batch, and one that is no longer the last saved one cannot
  be the epoch index of a later batch.  The scheduler's cursor is the derived epoch
  index of the batch before, and it has stepped once for each index from 1 up to it.
\<close>

definition save_view :: "loop_state \<Rightarrow> int \<times> int \<times> int list" where
  "save_view st = (batch_idx st, last_save_epoch st, saved_epochs (events st))"

definition save_inv :: "config \<Rightarrow> nat \<Rightarrow> loop_state \<Rightarrow> bool" where
  "save_inv cfg n st \<longleftrightarrow>
     distinct (saved_epochs (events st)) \<and> 0 \<notin> set (saved_epochs (events st))
     \<and> (\<forall>s \<in> set (saved_epochs (events st)). \<exists>b0 < batch_idx st. b0 * batchsize cfg div int n = s)
     \<and> (\<forall>s \<in> set (saved_epochs (events st)). s \<noteq> last_save_epoch st \<longrightarrow>
           (\<forall>b' \<ge> batch_idx st. b' * batchsize cfg div int n \<noteq> s))"

definition sched_view :: "loop_state \<Rightarrow> int \<times> int \<times> int list" where
  "sched_view st = (batch_idx st, last_epoch st, scheduler_steps (events st))"

definition sched_inv :: "config \<Rightarrow> nat \<Rightarrow> loop_state \<Rightarrow> bool" where
  "sched_inv cfg n st \<longleftrightarrow>
     (case sched_view st of (b, l, steps) \<Rightarrow>
        0 \<le> b \<and> l = (if b = 0 then 0 else (b - 1) * batchsize cfg div int n) \<and> steps = [1..l])"

text \<open>A run to evaluate: four volumes, batches of two, six batches, a checkpoint every
  epoch, two loss terms with two weights.\<close>

definition example_env :: env where
  "example_env = \<lparr>cuda_available = True, config_isfile = True, save_dir_isdir = False,
     typed_choice = [], dataset_len = 4, loader_len = 6, net_call = (\<lambda>i. None),
     scheduler_start = 0\<rparr>"

definition example_config :: config where
  "example_config = \<lparr>resume_epoch = - 1, clear_start_epoch = False, crop_size = [96, 96, 96],
     batchsize = 2, plot_snapshot = 10, save_epochs = 1, loss_name = [''Dice'', ''Focal''],
     loss_weight = [1 / 2, 1 / 2]\<rparr>"

text \<open>The same run with three loss terms enabled and two weights.\<close>

definition mismatch_config :: config where
  "mismatch_config = example_config\<lparr>loss_name := [''Dice'', ''Focal'', ''Boundary'']\<rparr>"

section \<open>train.py: loading a checkpoint\<close>

text \<open>
  What a checkpoint file holds once unpickled: integers, strings, a network state
  dictionary (parameter name to values), an optimizer state (the sizes of its
  parameter groups and its buffers), and dictionaries of these.
\<close>

datatype pyval =
    PyInt int
  | PyStr string
  | StateDict "(string \<times> real list) list"
  | OptimizerState "nat list" "real list list"
  | PyDict "(string \<times> pyval) list"









section \<open>Properties\<close>

lemma foldl_snoc_map: "foldl (\<lambda>acc i. acc @ [f i]) acc xs = acc @ map f xs"
  by (induction xs arbitrary: acc) simp_all

lemma make_nConv_map:
  "make_nConv nchan depth elu use_bottle =
     map (\<lambda>i. (if use_bottle then LUConv_bottle_init else LUConv_init) nchan elu (i \<noteq> depth - 1))
       [0..depth - 1]"
proof -
  have "(\<lambda>layers i.
        if use_bottle then
          (if i \<noteq> depth - 1 then layers @ [LUConv_bottle_init nchan elu True]
           else layers @ [LUConv_bottle_init nchan elu False])
        else
          (if i \<noteq> depth - 1 then layers @ [LUConv_init nchan elu True]
           else layers @ [LUConv_init nchan elu False]))
      = (\<lambda>layers i. layers @
           [(if use_bottle then LUConv_bottle_init else LUConv_init) nchan elu (i \<noteq> depth - 1)])"
    by (intro ext) simp
  then show ?thesis
    unfolding make_nConv_def by (simp add: foldl_snoc_map)
qed

lemma make_nConv_replicate:
  assumes "1 \<le> depth"
  shows "make_nConv nchan depth elu use_bottle =
     replicate (nat depth - 1) ((if use_bottle then LUConv_bottle_init else LUConv_init) nchan elu True)
       @ [(if use_bottle then LUConv_bottle_init else LUConv_init) nchan elu False]"
proof -
  let ?mk = "(if use_bottle then LUConv_bottle_init else LUConv_init) nchan elu"
  have split: "[0..depth - 1] = [0..depth - 1 - 1] @ [depth - 1]"
    using assms by (simp add: upto_rec2)
  have len: "length [0..depth - 1 - 1] = nat depth - 1"
    using assms by simp
  have "map (\<lambda>i. ?mk (i \<noteq> depth - 1)) [0..depth - 1 - 1] = map (\<lambda>i. ?mk True) [0..depth - 1 - 1]"
    by (rule map_cong) auto
  also have "\<dots> = replicate (nat depth - 1) (?mk True)"
    using len by (simp add: map_replicate_const)
  finally have "map (\<lambda>i. ?mk (i \<noteq> depth - 1)) [0..depth - 1]
      = replicate (nat depth - 1) (?mk True) @ [?mk False]"
    by (subst split) simp
  then show ?thesis
    by (simp add: make_nConv_map)
qed

lemma block_init_facts:
  "applies_final_activation ((if ub then LUConv_bottle_init else LUConv_init) nchan elu act) = act"
  "is_bottle ((if ub then LUConv_bottle_init else LUConv_init) nchan elu act) = ub"
  "block_width ((if ub then LUConv_bottle_init else LUConv_init) nchan elu act) = (nchan, nchan)"
  by (simp_all add: LUConv_bottle_init_def LUConv_init_def nn_Conv3d_def)

text \<open>
  C8.  For every \<open>depth \<ge> 1\<close>, \<^verbatim>\<open>_make_nConv(nchan, depth, elu, use_bottle)\<close> builds
  exactly \<open>depth\<close> blocks, all of the requested kind and all taking and giving \<open>nchan\<close>
  channels; every block but the last is built with \<^verbatim>\<open>act=True\<close> and the last with
  \<^verbatim>\<open>act=False\<close>.
\<close>

theorem make_nConv_blocks:
  assumes "1 \<le> depth"
  shows "length (make_nConv nchan depth elu use_bottle) = nat depth
    \<and> (\<forall>i < nat depth.
          block_width (make_nConv nchan depth elu use_bottle ! i) = (nchan, nchan)
        \<and> is_bottle (make_nConv nchan depth elu use_bottle ! i) = use_bottle
        \<and> applies_final_activation (make_nConv nchan depth elu use_bottle ! i)
            = (i \<noteq> nat depth - 1))"
proof -
  let ?mk = "(if use_bottle then LUConv_bottle_init else LUConv_init) nchan elu"
  have eq: "make_nConv nchan depth elu use_bottle = replicate (nat depth - 1) (?mk True) @ [?mk False]"
    using assms by (rule make_nConv_replicate)
  have len: "length (make_nConv nchan depth elu use_bottle) = nat depth"
    using assms by (simp add: eq)
  have nth: "make_nConv nchan depth elu use_bottle ! i = ?mk (i \<noteq> nat depth - 1)"
    if "i < nat depth" for i
  proof (cases "i < nat depth - 1")
    case True
    then show ?thesis by (simp add: eq nth_append)
  next
    case False
    with that have "i = nat depth - 1" by simp
    then show ?thesis by (simp add: eq nth_append)
  qed
  show ?thesis
    using len nth block_init_facts [of use_bottle nchan elu] by simp
qed

theorem make_nConv_blocks_witness:
  "(1::int) \<le> 3
   \<and> make_nConv 64 3 False True
       = [LUConv_bottle_init 64 False True, LUConv_bottle_init 64 False True,
          LUConv_bottle_init 64 False False]
   \<and> length (make_nConv 64 3 False True) = 3
   \<and> applies_final_activation (make_nConv 64 3 False True ! 0)
   \<and> applies_final_activation (make_nConv 64 3 False True ! 1)
   \<and> \<not> applies_final_activation (make_nConv 64 3 False True ! 2)"
proof -
  have h: "(1::int) \<le> 3" by simp
  have list: "make_nConv 64 3 False True
       = [LUConv_bottle_init 64 False True, LUConv_bottle_init 64 False True,
          LUConv_bottle_init 64 False False]"
    by (simp add: make_nConv_def upto.simps)
  have nth: "applies_final_activation (make_nConv 64 3 False True ! i) = (i \<noteq> 2)"
    if "i < 3" for i
    using make_nConv_blocks [OF h, of 64 False True] that by simp
  have len: "length (make_nConv 64 3 False True) = 3"
    using make_nConv_blocks [OF h, of 64 False True] by simp
  have a0: "applies_final_activation (make_nConv 64 3 False True ! 0)"
    using nth [of 0] by simp
  have a1: "applies_final_activation (make_nConv 64 3 False True ! 1)"
    using nth [of 1] by simp
  have a2: "\<not> applies_final_activation (make_nConv 64 3 False True ! 2)"
    using nth [of 2] by simp
  show ?thesis
    by (intro conjI h list len a0 a1 a2)
qed

subsection \<open>The network: dropout in the up stage\<close>

lemma bindE_Inr: "bindE m f = Inr y \<Longrightarrow> \<exists>v. m = Inr v \<and> f v = Inr y"
  by (cases m) (simp_all add: bindE_def)

lemma call_tracing:
  assumes "call tracing l t = Inr t'" "l \<noteq> passthrough"
  shows "content t' = Call l (content t)"
  using assms by (cases l; cases t) (auto simp: tracing_def split: if_splits)

lemma observers_foldr:
  assumes "list_all plain ls"
  shows "dropped (foldr Call ls g) = dropped g" "undropped (foldr Call ls g) = undropped g"
    "transposed_inputs (foldr Call ls g) = transposed_inputs g"
    "cat_operands (foldr Call ls g) = cat_operands g"
  using assms by (induction ls) (simp_all add: plain_def)

lemma call_stacked:
  assumes "call tracing l t = Inr t'" "plain l" "stacked g t"
  shows "stacked g t'"
proof -
  from assms(3) obtain ls where ls: "list_all plain ls" "content t = foldr Call ls g"
    by (auto simp: stacked_def)
  have "content t' = foldr Call (l # ls) g"
    using call_tracing [OF assms(1)] assms(2) ls(2) by (simp add: plain_def)
  moreover have "list_all plain (l # ls)" using assms(2) ls(1) by simp
  ultimately show ?thesis unfolding stacked_def by blast
qed

lemma call3_stacked:
  assumes "bindE (bindE (call tracing l1 t) (call tracing l2)) (call tracing l3) = Inr t'"
    "plain l1" "plain l2" "plain l3" "stacked g t"
  shows "stacked g t'"
proof -
  from bindE_Inr [OF assms(1)] obtain t2
    where a: "bindE (call tracing l1 t) (call tracing l2) = Inr t2"
    and b: "call tracing l3 t2 = Inr t'" by blast
  from bindE_Inr [OF a] obtain t1
    where c: "call tracing l1 t = Inr t1" and d: "call tracing l2 t1 = Inr t2" by blast
  from call_stacked [OF c assms(2,5)] have "stacked g t1" .
  from call_stacked [OF d assms(3) this] have "stacked g t2" .
  from call_stacked [OF b assms(4) this] show ?thesis .
qed

lemma call2_stacked:
  assumes "bindE (call tracing l1 t) (call tracing l2) = Inr t'"
    "plain l1" "plain l2" "stacked g t"
  shows "stacked g t'"
proof -
  from bindE_Inr [OF assms(1)] obtain t1
    where c: "call tracing l1 t = Inr t1" and d: "call tracing l2 t1 = Inr t'" by blast
  from call_stacked [OF c assms(2,4)] have "stacked g t1" .
  from call_stacked [OF d assms(3) this] show ?thesis .
qed

lemma block_forward_stacked:
  assumes fw: "block_forward tracing b t = Inr t'" and pl: "list_all plain (block_layers b)"
    and st: "stacked g t"
  shows "stacked g t'"
proof (cases b)
  case (LUConv act relu1 conv1 bn1)
  with pl have p: "plain relu1" "plain conv1" "plain bn1" by simp_all
  show ?thesis
  proof (cases act)
    case True
    with fw LUConv have "bindE (bindE (call tracing conv1 t) (call tracing bn1)) (call tracing relu1) = Inr t'"
      by simp
    from call3_stacked [OF this p(2,3,1) st] show ?thesis .
  next
    case False
    with fw LUConv have "bindE (call tracing conv1 t) (call tracing bn1) = Inr t'" by simp
    from call2_stacked [OF this p(2,3) st] show ?thesis .
  qed
next
  case (LUConv_bottle act relu1 conv1 bn1 relu2 conv2 bn2 relu3 conv3 bn3)
  with pl have p: "plain relu1" "plain conv1" "plain bn1" "plain relu2" "plain conv2" "plain bn2"
    "plain relu3" "plain conv3" "plain bn3" by simp_all
  from fw LUConv_bottle have fw':
    "bindE (bindE (bindE (call tracing conv1 t) (call tracing bn1)) (call tracing relu1)) (\<lambda>out.
     bindE (bindE (bindE (call tracing conv2 out) (call tracing bn2)) (call tracing relu2)) (\<lambda>out.
     if act then bindE (bindE (call tracing conv3 out) (call tracing bn3)) (call tracing relu3)
     else bindE (call tracing conv3 out) (call tracing bn3))) = Inr t'"
    by simp
  from bindE_Inr [OF fw'] obtain t1 where
    a: "bindE (bindE (call tracing conv1 t) (call tracing bn1)) (call tracing relu1) = Inr t1"
    and rest: "bindE (bindE (bindE (call tracing conv2 t1) (call tracing bn2)) (call tracing relu2)) (\<lambda>out.
     if act then bindE (bindE (call tracing conv3 out) (call tracing bn3)) (call tracing relu3)
     else bindE (call tracing conv3 out) (call tracing bn3)) = Inr t'"
    by blast
  from bindE_Inr [OF rest] obtain t2 where
    b: "bindE (bindE (call tracing conv2 t1) (call tracing bn2)) (call tracing relu2) = Inr t2"
    and c: "(if act then bindE (bindE (call tracing conv3 t2) (call tracing bn3)) (call tracing relu3)
            else bindE (call tracing conv3 t2) (call tracing bn3)) = Inr t'"
    by blast
  from call3_stacked [OF a p(2,3,1) st] have s1: "stacked g t1" .
  from call3_stacked [OF b p(5,6,4) s1] have s2: "stacked g t2" .
  show ?thesis
  proof (cases act)
    case True
    with c have "bindE (bindE (call tracing conv3 t2) (call tracing bn3)) (call tracing relu3) = Inr t'"
      by simp
    from call3_stacked [OF this p(8,9,7) s2] show ?thesis .
  next
    case False
    with c have "bindE (call tracing conv3 t2) (call tracing bn3) = Inr t'" by simp
    from call2_stacked [OF this p(8,9) s2] show ?thesis .
  qed
qed

lemma Sequential_forward_stacked:
  assumes "Sequential_forward tracing bs t = Inr t'"
    "list_all (\<lambda>b. list_all plain (block_layers b)) bs" "stacked g t"
  shows "stacked g t'"
  using assms
proof (induction bs arbitrary: t)
  case Nil
  then show ?case by simp
next
  case (Cons b bs)
  from Cons.prems(1) have "bindE (block_forward tracing b t) (Sequential_forward tracing bs) = Inr t'"
    by simp
  from bindE_Inr [OF this] obtain t1 where t1: "block_forward tracing b t = Inr t1"
    "Sequential_forward tracing bs t1 = Inr t'"
    by blast
  from Cons.prems(2) have pb: "list_all plain (block_layers b)"
    and pbs: "list_all (\<lambda>b. list_all plain (block_layers b)) bs" by simp_all
  from block_forward_stacked [OF t1(1) pb Cons.prems(3)] have "stacked g t1" .
  from Cons.IH [OF t1(2) pbs this] show ?case .
qed

lemma make_nConv_plain:
  "list_all (\<lambda>b. list_all plain (block_layers b)) (make_nConv nchan depth elu use_bottle)"
  by (simp add: make_nConv_map list_all_iff LUConv_init_def LUConv_bottle_init_def plain_def
      nn_Conv3d_def nn_BatchNorm3d_def ELUCons_def)

lemma stacked_observers:
  assumes "stacked g t"
  shows "dropped (content t) = dropped g" "undropped (content t) = undropped g"
    "transposed_inputs (content t) = transposed_inputs g"
    "cat_operands (content t) = cat_operands g"
  using assms observers_foldr unfolding stacked_def by auto

lemma stacked_refl: "stacked (content t) t"
  unfolding stacked_def by (intro exI [of _ "[]"]) simp

text \<open>
  C9.  Whenever \<^verbatim>\<open>UpTransition.forward(x, skipx)\<close> returns, its result was computed
  with dropout applied to \<open>skipx\<close> and not to \<open>x\<close>: \<open>skipx\<close> reaches the result only
  through the \<open>Dropout3d\<close> call, \<open>x\<close> only along paths without one, the transposed
  convolution is called on \<open>x\<close> itself (the slot \<^verbatim>\<open>do1\<close> is \<open>passthrough\<close>), and the one
  concatenation joins the upsampled, normalised and activated \<open>x\<close> with the dropped-out
  \<open>skipx\<close>.
\<close>

theorem UpTransition_dropout_on_skip_only:
  assumes "forward2 tracing (UpTransition_init inChans outChans nConvs elu dropout use_bottle)
      (Tensor n c d h w (Var ''x'')) (Tensor n' c' d' h' w' (Var ''skipx'')) = Inr out"
  shows "dropped (content out) = {''skipx''}
    \<and> undropped (content out) = {''x''}
    \<and> transposed_inputs (content out) = {Var ''x''}
    \<and> cat_operands (content out) =
        {(Call (ELUCons elu (outChans div 2))
            (Call (nn_BatchNorm3d (outChans div 2))
              (Call (nn_ConvTranspose3d inChans (outChans div 2) 2 2) (Var ''x''))),
          Call (Dropout3d (2 / 10)) (Var ''skipx''))}"
proof -
  let ?up = "nn_ConvTranspose3d inChans (outChans div 2) 2 2"
  let ?bn = "nn_BatchNorm3d (outChans div 2)"
  let ?r1 = "ELUCons elu (outChans div 2)"
  let ?r2 = "ELUCons elu outChans"
  let ?ops = "make_nConv outChans nConvs elu use_bottle"
  let ?x = "Tensor n c d h w (Var ''x'')"
  let ?skipx = "Tensor n' c' d' h' w' (Var ''skipx'')"
  have np: "?up \<noteq> passthrough" "?bn \<noteq> passthrough" "?r1 \<noteq> passthrough" "?r2 \<noteq> passthrough"
    by (simp_all add: nn_ConvTranspose3d_def nn_BatchNorm3d_def ELUCons_def)
  have kinds: "is_transposed ?up" "\<not> is_dropout ?up" "\<not> is_transposed ?bn" "\<not> is_dropout ?bn"
    "\<not> is_transposed ?r1" "\<not> is_dropout ?r1" "\<not> is_transposed ?r2" "\<not> is_dropout ?r2"
    by (simp_all add: nn_ConvTranspose3d_def nn_BatchNorm3d_def ELUCons_def)
  from assms have fw:
    "bindE (call tracing passthrough ?x) (\<lambda>out.
     bindE (call tracing (Dropout3d (2 / 10)) ?skipx) (\<lambda>skipxdo.
     bindE (bindE (bindE (call tracing ?up out) (call tracing ?bn)) (call tracing ?r1)) (\<lambda>out.
     bindE (torch_cat tracing out skipxdo) (\<lambda>xcat.
     bindE (Sequential_forward tracing ?ops xcat) (\<lambda>out.
     bindE (torch_add tracing out xcat) (call tracing ?r2)))))) = Inr out"
    by (simp add: UpTransition_init_def)
  from bindE_Inr [OF fw] have fw1:
    "bindE (call tracing (Dropout3d (2 / 10)) ?skipx) (\<lambda>skipxdo.
     bindE (bindE (bindE (call tracing ?up ?x) (call tracing ?bn)) (call tracing ?r1)) (\<lambda>out.
     bindE (torch_cat tracing out skipxdo) (\<lambda>xcat.
     bindE (Sequential_forward tracing ?ops xcat) (\<lambda>out.
     bindE (torch_add tracing out xcat) (call tracing ?r2))))) = Inr out"
    by simp
  from bindE_Inr [OF fw1] obtain skipxdo where
    s: "call tracing (Dropout3d (2 / 10)) ?skipx = Inr skipxdo"
    and fw2: "bindE (bindE (bindE (call tracing ?up ?x) (call tracing ?bn)) (call tracing ?r1)) (\<lambda>out.
     bindE (torch_cat tracing out skipxdo) (\<lambda>xcat.
     bindE (Sequential_forward tracing ?ops xcat) (\<lambda>out.
     bindE (torch_add tracing out xcat) (call tracing ?r2)))) = Inr out"
    by blast
  from bindE_Inr [OF fw2] obtain t3 where
    abc: "bindE (bindE (call tracing ?up ?x) (call tracing ?bn)) (call tracing ?r1) = Inr t3"
    and fw3: "bindE (torch_cat tracing t3 skipxdo) (\<lambda>xcat.
     bindE (Sequential_forward tracing ?ops xcat) (\<lambda>out.
     bindE (torch_add tracing out xcat) (call tracing ?r2))) = Inr out"
    by blast
  from bindE_Inr [OF abc] obtain t2 where
    ab: "bindE (call tracing ?up ?x) (call tracing ?bn) = Inr t2"
    and c: "call tracing ?r1 t2 = Inr t3" by blast
  from bindE_Inr [OF ab] obtain t1 where
    a: "call tracing ?up ?x = Inr t1" and b: "call tracing ?bn t1 = Inr t2" by blast
  from bindE_Inr [OF fw3] obtain xcat where
    cat: "torch_cat tracing t3 skipxdo = Inr xcat"
    and fw4: "bindE (Sequential_forward tracing ?ops xcat) (\<lambda>out.
     bindE (torch_add tracing out xcat) (call tracing ?r2)) = Inr out"
    by blast
  from bindE_Inr [OF fw4] obtain t4 where
    ops: "Sequential_forward tracing ?ops xcat = Inr t4"
    and fw5: "bindE (torch_add tracing t4 xcat) (call tracing ?r2) = Inr out"
    by blast
  from bindE_Inr [OF fw5] obtain t5 where
    add: "torch_add tracing t4 xcat = Inr t5" and r: "call tracing ?r2 t5 = Inr out"
    by blast
  have cs: "content skipxdo = Call (Dropout3d (2 / 10)) (Var ''skipx'')"
    using call_tracing [OF s] by simp
  have c3: "content t3 = Call ?r1 (Call ?bn (Call ?up (Var ''x'')))"
    using call_tracing [OF a np(1)] call_tracing [OF b np(2)] call_tracing [OF c np(3)] by simp
  have cx: "content xcat = Cat (content t3) (content skipxdo)"
    using cat by (cases t3; cases skipxdo) (auto simp: tracing_def split: if_splits)
  have st4: "stacked (content xcat) t4"
    using Sequential_forward_stacked [OF ops make_nConv_plain stacked_refl] .
  have c5: "content t5 = Add (content t4) (content xcat)"
    using add by (cases t4; cases xcat) (auto simp: tracing_def split: option.splits)
  have co: "content out = Call ?r2 (content t5)"
    using call_tracing [OF r np(4)] .
  show ?thesis
    unfolding co c5
    by (simp add: kinds stacked_observers [OF st4] cx c3 cs)
qed

lemmas net_eval = SegmentationNet_init_def PreBlock_init_def InputTransition_init_def
  DownTransition_init_def UpTransition_init_def OutputTransition_init_def PostBlock_init_def
  nn_Conv3d_def nn_ConvTranspose3d_def nn_BatchNorm3d_def ELUCons_def make_nConv_def
  LUConv_init_def LUConv_bottle_init_def SegmentationNet_forward_def call_attr1_def
  call_attr2_def getattr_def bindE_def broadcast_def upto.simps Let_def

lemma up_tr32_returns:
  "\<exists>out. forward2 tracing (UpTransition_init 64 32 2 False False False)
      (Tensor 1 64 2 2 2 (Var ''x'')) (Tensor 1 16 4 4 4 (Var ''skipx'')) = Inr out"
  by (simp add: net_eval tracing_def)

theorem UpTransition_dropout_on_skip_only_witness:
  "\<exists>out. forward2 tracing (UpTransition_init 64 32 2 False False False)
      (Tensor 1 64 2 2 2 (Var ''x'')) (Tensor 1 16 4 4 4 (Var ''skipx'')) = Inr out
    \<and> dropped (content out) = {''skipx''} \<and> undropped (content out) = {''x''}
    \<and> transposed_inputs (content out) = {Var ''x''}"
proof -
  from up_tr32_returns obtain out where
    out: "forward2 tracing (UpTransition_init 64 32 2 False False False)
      (Tensor 1 64 2 2 2 (Var ''x'')) (Tensor 1 16 4 4 4 (Var ''skipx'')) = Inr out"
    by blast
  from UpTransition_dropout_on_skip_only [OF out] out show ?thesis by blast
qed

subsection \<open>The network: the forward pass and the stride\<close>

lemma out_block_missing:
  "call_attr1 be (SegmentationNet_init cin cout elu) ''out_block'' t
     = Inl (AttributeError ''out_block'')"
  by (simp add: call_attr1_def getattr_def bindE_def SegmentationNet_init_def)

lemma bindE_last_Inl:
  assumes "\<And>v. f v \<noteq> Inr y"
  shows "bindE m f \<noteq> Inr y"
  using assms by (cases m) (simp_all add: bindE_def)

lemma forward_never_returns:
  "SegmentationNet_forward be (SegmentationNet_init cin cout elu) x \<noteq> Inr y"
  unfolding SegmentationNet_forward_def
  by (intro bindE_last_Inl allI) (simp add: out_block_missing)

lemma forward_64:
  "SegmentationNet_forward shape_only (SegmentationNet_init 1 2 False) (Tensor 1 1 64 64 64 ())
     = Inl (AttributeError ''out_block'')"
  by (simp add: net_eval shape_only_def)

lemma forward_48:
  "SegmentationNet_forward shape_only (SegmentationNet_init 1 2 False) (Tensor 2 1 48 48 48 ())
     = Inl RuntimeError"
  by (simp add: net_eval shape_only_def)

lemma forward_16:
  "SegmentationNet_forward shape_only (SegmentationNet_init 1 2 False) (Tensor 2 1 16 16 16 ())
     = Inl RuntimeError"
  by (simp add: net_eval shape_only_def)

lemma crop_16_passes: "crop_divisible [16, 16, 16] max_stride = Inr True"
  by (simp add: crop_divisible_def max_stride_def)

lemma make_nConv_stride: "prod_list (map block_stride (make_nConv nchan depth elu use_bottle)) = 1"
proof -
  have "\<forall>b \<in> set (make_nConv nchan depth elu use_bottle). block_stride b = 1"
    by (auto simp: make_nConv_map LUConv_init_def LUConv_bottle_init_def nn_Conv3d_def)
  then have "map block_stride (make_nConv nchan depth elu use_bottle)
      = replicate (length (make_nConv nchan depth elu use_bottle)) 1"
    by (simp add: map_replicate_const [symmetric] cong: map_cong)
  then show ?thesis by simp
qed

lemma encoder_stride_32: "encoder_stride (SegmentationNet_init cin cout elu) = Inr 32"
  by (simp add: encoder_stride_def getattr_def bindE_def SegmentationNet_init_def
      PreBlock_init_def InputTransition_init_def DownTransition_init_def make_nConv_stride
      nn_Conv3d_def Let_def)

lemma crop_48_passes: "crop_divisible [48, 48, 48] max_stride = Inr True"
  by (simp add: crop_divisible_def max_stride_def)

text \<open>
  C2 does not hold of the code.  The training engine declares the stride 16 on every
  axis, while the encoder of the network divides the extents by 32.  A crop of
  \<open>48 \<times> 48 \<times> 48\<close> passes the engine's divisibility check, and the forward pass on a batch
  of such crops fails with a shape mismatch in the first up stage.  A crop of
  \<open>16 \<times> 16 \<times> 16\<close> passes the check as well and is smaller than the kernel of the
  last down stage.
\<close>

theorem declared_max_stride_16_network_stride_32:
  "max_stride = [16, 16, 16]
   \<and> encoder_stride (SegmentationNet_init 1 2 False) = Inr 32
   \<and> crop_divisible [48, 48, 48] max_stride = Inr True
   \<and> SegmentationNet_forward shape_only (SegmentationNet_init 1 2 False) (Tensor 2 1 48 48 48 ())
       = Inl RuntimeError
   \<and> crop_divisible [16, 16, 16] max_stride = Inr True
   \<and> SegmentationNet_forward shape_only (SegmentationNet_init 1 2 False) (Tensor 2 1 16 16 16 ())
       = Inl RuntimeError"
  by (intro conjI max_stride_def encoder_stride_32 crop_48_passes forward_48 crop_16_passes
      forward_16)

text \<open>
  C1 does not hold of the code.  \<^verbatim>\<open>forward\<close> ends by calling \<^verbatim>\<open>self.out_block\<close>,
  an attribute that \<^verbatim>\<open>__init__\<close> never assigns (the last stage is stored as
  \<^verbatim>\<open>out_tr\<close>): for no input, of whatever shape, does \<^verbatim>\<open>forward\<close> return a tensor,
  and on a \<open>64 \<times> 64 \<times> 64\<close> volume, on which every stage before succeeds, it raises
  \<open>AttributeError\<close>.
\<close>

theorem forward_raises_AttributeError:
  "SegmentationNet_forward be (SegmentationNet_init cin cout elu) x \<noteq> Inr y
   \<and> SegmentationNet_forward shape_only (SegmentationNet_init 1 2 False) (Tensor 1 1 64 64 64 ())
       = Inl (AttributeError ''out_block'')"
  by (intro conjI forward_never_returns forward_64)

subsection \<open>The network: focal initialisation\<close>

lemma focal_bias_unit:
  assumes "0 < p" "p < 1"
  shows "focal_bias p = Inr (- ln ((1 - p) / p))"
  using assms by (simp add: focal_bias_def not_le)

lemma focal_bias_half: "focal_bias (1 / 2) = Inr 0"
  by (simp add: focal_bias_def)

lemma odds_decreasing:
  fixes p1 p2 :: real
  assumes "0 < p1" "p1 < p2" "p2 < 1"
  shows "(1 - p2) / p2 < (1 - p1) / p1" "0 < (1 - p2) / p2"
proof -
  have "(1 - p2) * p1 < (1 - p1) * p2" using assms by (simp add: algebra_simps)
  then show "(1 - p2) / p2 < (1 - p1) / p1"
    using assms by (simp add: divide_simps)
  show "0 < (1 - p2) / p2" using assms by simp
qed

lemma focal_bias_increasing:
  fixes p1 p2 :: real
  assumes "0 < p1" "p1 < p2" "p2 < 1"
  shows "- ln ((1 - p1) / p1) < - ln ((1 - p2) / p2)"
proof -
  from odds_decreasing [OF assms] have "ln ((1 - p2) / p2) < ln ((1 - p1) / p1)"
    by (simp add: ln_less_cancel_iff)
  then show ?thesis by simp
qed

lemma odds_at_right_0: "LIM p at_left (1::real). (1 - p) / p :> at_right 0"
  unfolding filterlim_at
proof
  show "\<forall>\<^sub>F p in at_left (1::real). (1 - p) / p \<in> {0<..} \<and> (1 - p) / p \<noteq> 0"
    unfolding eventually_at_left_field
    by (intro exI [of _ "1 / 2"]) (auto simp: divide_simps)
  have "((\<lambda>p::real. (1 - p) / p) \<longlongrightarrow> (1 - 1) / 1) (at_left 1)"
    by (intro tendsto_intros) simp
  then show "((\<lambda>p::real. (1 - p) / p) \<longlongrightarrow> 0) (at_left 1)" by simp
qed

lemma logit_at_top: "LIM p at_left (1::real). - ln ((1 - p) / p) :> at_top"
proof -
  have "LIM p at_left (1::real). ln ((1 - p) / p) :> at_bot"
    by (rule filterlim_compose [OF ln_at_0 odds_at_right_0])
  then show ?thesis by (simp add: filterlim_uminus_at_top)
qed

lemma focal_bias_at_top: "LIM p at_left 1. projr (focal_bias p) :> at_top"
proof -
  have "\<forall>\<^sub>F p in at_left (1::real). - ln ((1 - p) / p) = projr (focal_bias p)"
    unfolding eventually_at_left_field
    by (intro exI [of _ "1 / 2"]) (auto simp: focal_bias_unit)
  then show ?thesis
    using logit_at_top by (rule filterlim_cong [OF refl refl, THEN iffD1])
qed

lemma getattr_net_apply:
  "getattr (net_apply fn net) name = map_sum id (stage_apply fn) (getattr net name)"
proof -
  have "map_of (net_apply fn net) name = map_option (stage_apply fn) (map_of net name)"
    unfolding net_apply_def by (simp add: map_of_map)
  then show ?thesis by (cases "map_of net name") (simp_all add: getattr_def)
qed

lemma gaussian_conv3d:
  "gaussian_weight_init (Conv3d cin cout k s p wt b) conv_std bn_std
     = Conv3d cin cout k s p (Normal 0 conv_std) (map_option (map (\<lambda>x. Val 0)) b)"
  by (simp add: gaussian_weight_init_def)

lemma gaussian_batchnorm:
  "gaussian_weight_init (BatchNorm3d nf wt b) conv_std bn_std
     = BatchNorm3d nf (Normal 1 bn_std) (map (\<lambda>x. Val 0) b)"
  by (simp add: gaussian_weight_init_def)

lemma vnet_focal_init_result:
  assumes ob: "getattr net ''out_block''
      = Inr (OutputTransition conv1 bn1 (Conv3d cin cout k s p wt (Some b)) relu1 softmax)"
    and len: "1 < length b" and p: "0 < obj_p" "obj_p < 1"
  shows "vnet_focal_init net obj_p =
     Inr (replace_attr (net_apply (\<lambda>m. gaussian_weight_init m (1 / 100) (1 / 100)) net) ''out_block''
       (OutputTransition
          (apply_module (\<lambda>m. gaussian_weight_init m (1 / 100) (1 / 100)) conv1)
          (apply_module (\<lambda>m. gaussian_weight_init m (1 / 100) (1 / 100)) bn1)
          (Conv3d cin cout k s p (Normal 0 (1 / 100))
             (Some ((map (\<lambda>x. Val 0) b)[1 := Val (- ln ((1 - obj_p) / obj_p))])))
          (apply_module (\<lambda>m. gaussian_weight_init m (1 / 100) (1 / 100)) relu1)
          (apply_module (\<lambda>m. gaussian_weight_init m (1 / 100) (1 / 100)) softmax)))"
  using len
  by (simp add: vnet_focal_init_def Let_def focal_bias_unit [OF p] getattr_net_apply ob bindE_def
      apply_module_def gaussian_conv3d)

text \<open>On the network that \<^verbatim>\<open>SegmentationNet.__init__\<close> of this file builds, the
  attribute \<^verbatim>\<open>out_block\<close> does not exist.\<close>

lemma vnet_focal_init_this_network:
  assumes "0 < obj_p" "obj_p < 1"
  shows "vnet_focal_init (SegmentationNet_init cin cout elu) obj_p = Inl (AttributeError ''out_block'')"
proof -
  have "getattr (SegmentationNet_init cin cout elu) ''out_block'' = Inl (AttributeError ''out_block'')"
    by (simp add: getattr_def SegmentationNet_init_def)
  then show ?thesis
    by (simp add: vnet_focal_init_def Let_def focal_bias_unit [OF assms] getattr_net_apply bindE_def)
qed

text \<open>
  C3, amended.  On a network whose final output block is stored as \<^verbatim>\<open>out_block\<close> and
  has at least two output channels, and for \<open>0 < obj_p < 1\<close>, \<^verbatim>\<open>vnet_focal_init\<close>
  returns the network as the Gaussian policy leaves it, except that the entry 1 of the
  bias of \<^verbatim>\<open>out_block.conv2\<close> is \<open>- ln ((1 - obj_p) / obj_p)\<close>.  For \<open>obj_p = 1/2\<close>
  this bias is 0; it is strictly increasing in \<open>obj_p\<close> on the open unit interval, and
  it grows beyond every bound as \<open>obj_p\<close> tends to 1 from below.
\<close>

theorem focal_bias_is_logit_increasing:
  "(getattr net ''out_block''
      = Inr (OutputTransition conv1 bn1 (Conv3d cin cout k s p wt (Some b)) relu1 softmax)
    \<and> 1 < length b \<and> 0 < obj_p \<and> obj_p < 1 \<longrightarrow>
    vnet_focal_init net obj_p =
     Inr (replace_attr (net_apply (\<lambda>m. gaussian_weight_init m (1 / 100) (1 / 100)) net) ''out_block''
       (OutputTransition
          (apply_module (\<lambda>m. gaussian_weight_init m (1 / 100) (1 / 100)) conv1)
          (apply_module (\<lambda>m. gaussian_weight_init m (1 / 100) (1 / 100)) bn1)
          (Conv3d cin cout k s p (Normal 0 (1 / 100))
             (Some ((map (\<lambda>x. Val 0) b)[1 := Val (- ln ((1 - obj_p) / obj_p))])))
          (apply_module (\<lambda>m. gaussian_weight_init m (1 / 100) (1 / 100)) relu1)
          (apply_module (\<lambda>m. gaussian_weight_init m (1 / 100) (1 / 100)) softmax))))
   \<and> focal_bias (1 / 2) = Inr 0
   \<and> (0 < p1 \<and> p1 < p2 \<and> p2 < 1 \<longrightarrow>
        (\<exists>v1 v2. focal_bias p1 = Inr v1 \<and> focal_bias p2 = Inr v2 \<and> v1 < v2))
   \<and> (LIM q at_left 1. projr (focal_bias q) :> at_top)"
proof (intro conjI impI)
  assume "getattr net ''out_block''
      = Inr (OutputTransition conv1 bn1 (Conv3d cin cout k s p wt (Some b)) relu1 softmax)
    \<and> 1 < length b \<and> 0 < obj_p \<and> obj_p < 1"
  then show "vnet_focal_init net obj_p =
     Inr (replace_attr (net_apply (\<lambda>m. gaussian_weight_init m (1 / 100) (1 / 100)) net) ''out_block''
       (OutputTransition
          (apply_module (\<lambda>m. gaussian_weight_init m (1 / 100) (1 / 100)) conv1)
          (apply_module (\<lambda>m. gaussian_weight_init m (1 / 100) (1 / 100)) bn1)
          (Conv3d cin cout k s p (Normal 0 (1 / 100))
             (Some ((map (\<lambda>x. Val 0) b)[1 := Val (- ln ((1 - obj_p) / obj_p))])))
          (apply_module (\<lambda>m. gaussian_weight_init m (1 / 100) (1 / 100)) relu1)
          (apply_module (\<lambda>m. gaussian_weight_init m (1 / 100) (1 / 100)) softmax)))"
    using vnet_focal_init_result by blast
next
  show "focal_bias (1 / 2) = Inr 0" by (rule focal_bias_half)
next
  assume h: "0 < p1 \<and> p1 < p2 \<and> p2 < 1"
  then have "focal_bias p1 = Inr (- ln ((1 - p1) / p1))" "focal_bias p2 = Inr (- ln ((1 - p2) / p2))"
    by (simp_all add: focal_bias_unit)
  moreover have "- ln ((1 - p1) / p1) < - ln ((1 - p2) / p2)"
    using h by (intro focal_bias_increasing) simp_all
  ultimately show "\<exists>v1 v2. focal_bias p1 = Inr v1 \<and> focal_bias p2 = Inr v2 \<and> v1 < v2"
    by blast
next
  show "LIM q at_left 1. projr (focal_bias q) :> at_top" by (rule focal_bias_at_top)
qed

lemma focal_bias_quarter: "focal_bias (1 / 4) = Inr (- ln 3)"
  by (simp add: focal_bias_def)

text \<open>
  C3 as stated fails: the bias is not decreasing.  At \<open>obj_p = 1/4\<close> it is \<open>- ln 3\<close>,
  which is negative, and at the larger \<open>obj_p = 1/2\<close> it is 0, which is greater.
\<close>

theorem focal_bias_decreasing_counterexample:
  "focal_bias (1 / 4) = Inr (- ln 3) \<and> focal_bias (1 / 2) = Inr 0 \<and> - ln 3 < (0::real)
   \<and> (1 / 4 :: real) < 1 / 2"
  by (simp add: focal_bias_quarter focal_bias_half)

lemma one_stage_net_out_block:
  "getattr one_stage_net ''out_block''
     = Inr (OutputTransition (nn_Conv3d 32 2 3 1 1) (nn_BatchNorm3d 2)
         (Conv3d 2 2 1 1 0 Default (Some [Default, Default])) ReLU (Softmax 1))"
  by (simp add: one_stage_net_def getattr_def OutputTransition_init_def nn_Conv3d_def ELUCons_def
      numeral_2_eq_2)

theorem focal_bias_is_logit_increasing_witness:
  "vnet_focal_init one_stage_net (1 / 4) =
     Inr [(''out_block'',
        OutputTransition (Conv3d 32 2 3 1 1 (Normal 0 (1 / 100)) (Some [Val 0, Val 0]))
          (BatchNorm3d 2 (Normal 1 (1 / 100)) [Val 0, Val 0])
          (Conv3d 2 2 1 1 0 (Normal 0 (1 / 100)) (Some [Val 0, Val (- ln 3)]))
          ReLU (Softmax 1))]
   \<and> (\<exists>v1 v2. focal_bias (1 / 4) = Inr v1 \<and> focal_bias (1 / 2) = Inr v2 \<and> v1 < v2)"
proof -
  have h: "getattr one_stage_net ''out_block''
      = Inr (OutputTransition (nn_Conv3d 32 2 3 1 1) (nn_BatchNorm3d 2)
         (Conv3d 2 2 1 1 0 Default (Some [Default, Default])) ReLU (Softmax 1))
    \<and> 1 < length [Default, Default] \<and> (0::real) < 1 / 4 \<and> (1 / 4 :: real) < 1"
    using one_stage_net_out_block by simp
  have m: "(0::real) < 1 / 4 \<and> (1 / 4 :: real) < 1 / 2 \<and> (1 / 2 :: real) < 1" by simp
  note t = focal_bias_is_logit_increasing [of one_stage_net "nn_Conv3d 32 2 3 1 1" "nn_BatchNorm3d 2"
      2 2 1 1 0 Default "[Default, Default]" ReLU "Softmax 1" "1 / 4" "1 / 4" "1 / 2"]
  from t h have "vnet_focal_init one_stage_net (1 / 4) =
     Inr (replace_attr (net_apply (\<lambda>m. gaussian_weight_init m (1 / 100) (1 / 100)) one_stage_net) ''out_block''
       (OutputTransition
          (apply_module (\<lambda>m. gaussian_weight_init m (1 / 100) (1 / 100)) (nn_Conv3d 32 2 3 1 1))
          (apply_module (\<lambda>m. gaussian_weight_init m (1 / 100) (1 / 100)) (nn_BatchNorm3d 2))
          (Conv3d 2 2 1 1 0 (Normal 0 (1 / 100))
             (Some ((map (\<lambda>x. Val 0) [Default, Default])[1 := Val (- ln ((1 - 1 / 4) / (1 / 4)))])))
          (apply_module (\<lambda>m. gaussian_weight_init m (1 / 100) (1 / 100)) ReLU)
          (apply_module (\<lambda>m. gaussian_weight_init m (1 / 100) (1 / 100)) (Softmax 1))))"
    by blast
  then have a: "vnet_focal_init one_stage_net (1 / 4) =
     Inr [(''out_block'',
        OutputTransition (Conv3d 32 2 3 1 1 (Normal 0 (1 / 100)) (Some [Val 0, Val 0]))
          (BatchNorm3d 2 (Normal 1 (1 / 100)) [Val 0, Val 0])
          (Conv3d 2 2 1 1 0 (Normal 0 (1 / 100)) (Some [Val 0, Val (- ln 3)]))
          ReLU (Softmax 1))]"
    by (simp add: one_stage_net_def net_apply_def OutputTransition_init_def apply_module_def
        nn_Conv3d_def nn_BatchNorm3d_def gaussian_conv3d gaussian_batchnorm
        gaussian_weight_init_def ELUCons_def numeral_2_eq_2)
  from t m have b: "\<exists>v1 v2. focal_bias (1 / 4) = Inr v1 \<and> focal_bias (1 / 2) = Inr v2 \<and> v1 < v2"
    by blast
  from a b show ?thesis by blast
qed

subsection \<open>The training loop: checkpoints and scheduler\<close>


lemma saved_epochs_append: "saved_epochs (xs @ ys) = saved_epochs xs @ saved_epochs ys"
  by (induction xs rule: saved_epochs.induct) simp_all

lemma scheduler_steps_append: "scheduler_steps (xs @ ys) = scheduler_steps xs @ scheduler_steps ys"
  by (induction xs rule: scheduler_steps.induct) simp_all

lemma train_loop_invariant:
  assumes "P st" and step: "\<And>i s. P s \<Longrightarrow> P (snd (train_step cfg ev i s))"
  shows "P (snd (train_loop cfg ev js st))"
  using assms(1)
proof (induction js arbitrary: st)
  case Nil
  then show ?case by simp
next
  case (Cons j js)
  obtain r st' where r: "train_step cfg ev j st = (r, st')" by (cases "train_step cfg ev j st")
  with step [OF Cons.prems, of j] have "P st'" by simp
  show ?case
  proof (cases r)
    case None
    with r Cons.IH [OF \<open>P st'\<close>] show ?thesis by simp
  next
    case (Some e)
    with r \<open>P st'\<close> show ?thesis by simp
  qed
qed

lemma forward_pass_save_view: "save_view (snd (forward_pass ev i st)) = save_view st"
  by (simp add: forward_pass_def save_view_def emit_def saved_epochs_append split: option.splits)

lemma loss_and_update_save_view: "save_view (snd (loss_and_update cfg st)) = save_view st"
  by (simp add: loss_and_update_def save_view_def emit_def saved_epochs_append)

lemma plot_if_due_save_view: "save_view (snd (plot_if_due cfg st)) = save_view st"
  by (simp add: plot_if_due_def save_view_def emit_def saved_epochs_append)

lemma step_scheduler_save_view: "save_view (step_scheduler e st) = save_view st"
  by (simp add: step_scheduler_def save_view_def emit_def saved_epochs_append)

lemma save_if_due_save_view:
  "save_view (snd (save_if_due cfg e st)) = save_view st \<or>
   (e \<noteq> 0 \<and> e \<noteq> last_save_epoch st \<and>
    save_view (snd (save_if_due cfg e st)) = (batch_idx st, e, saved_epochs (events st) @ [e]))"
  by (simp add: save_if_due_def save_view_def emit_def saved_epochs_append)


lemma train_step_save_view:
  "save_view (snd (train_step cfg ev i st)) = save_view st \<or>
   (\<exists>e. epoch_of cfg (dataset_len ev) (batch_idx st) = Inr e \<and>
      (save_view (snd (train_step cfg ev i st))
         = (batch_idx st + 1, last_save_epoch st, saved_epochs (events st)) \<or>
       (e \<noteq> 0 \<and> e \<noteq> last_save_epoch st \<and>
        save_view (snd (train_step cfg ev i st))
         = (batch_idx st + 1, e, saved_epochs (events st) @ [e]))))"
proof -
  obtain r1 s1 where f: "forward_pass ev i st = (r1, s1)" by (cases "forward_pass ev i st")
  have v1: "save_view s1 = save_view st" using forward_pass_save_view [of ev i st] f by simp
  show ?thesis
  proof (cases r1)
    case (Some x)
    then show ?thesis using f v1 by (simp add: train_step_def and_then_def)
  next
    case None
    note r1 = this
    have b1: "batch_idx s1 = batch_idx st" using v1 by (simp add: save_view_def)
    show ?thesis
    proof (cases "epoch_of cfg (dataset_len ev) (batch_idx st)")
      case (Inl x)
      then show ?thesis using f r1 v1 b1 by (simp add: train_step_def and_then_def)
    next
      case (Inr e)
      obtain r2 s2 where l: "loss_and_update cfg s1 = (r2, s2)" by (cases "loss_and_update cfg s1")
      have v2: "save_view s2 = save_view st" using loss_and_update_save_view [of cfg s1] l v1 by simp
      show ?thesis
      proof (cases r2)
        case (Some x)
        then show ?thesis using f r1 b1 Inr l v2 by (simp add: train_step_def and_then_def)
      next
        case None
        note r2 = this
        define s3 where "s3 = (step_scheduler e s2)\<lparr>batch_idx := batch_idx s2 + 1\<rparr>"
        have v3: "save_view s3 = (batch_idx st + 1, last_save_epoch st, saved_epochs (events st))"
          using step_scheduler_save_view [of e s2] v2 by (simp add: s3_def save_view_def)
        obtain r4 s4 where p: "plot_if_due cfg s3 = (r4, s4)" by (cases "plot_if_due cfg s3")
        have v4: "save_view s4 = save_view s3" using plot_if_due_save_view [of cfg s3] p by simp
        show ?thesis
        proof (cases r4)
          case (Some x)
          then have "train_step cfg ev i st = (Some x, s4)"
            using f r1 b1 Inr l r2 p by (simp add: train_step_def and_then_def s3_def)
          then show ?thesis using v4 v3 Inr by simp
        next
          case None
          define s5 where "s5 = emit [LogMetrics e] s4"
          have v5: "save_view s5 = save_view s3"
            using v4 by (simp add: s5_def save_view_def emit_def saved_epochs_append)
          have ts: "train_step cfg ev i st = save_if_due cfg e s5"
            using f r1 b1 Inr l r2 p None by (simp add: train_step_def and_then_def s3_def s5_def)
          have parts: "batch_idx s5 = batch_idx st + 1" "last_save_epoch s5 = last_save_epoch st"
            "saved_epochs (events s5) = saved_epochs (events st)"
            using v5 v3 by (simp_all add: save_view_def)
          show ?thesis
            using save_if_due_save_view [of cfg e s5] Inr v5 v3 by (auto simp: ts parts)
        qed
      qed
    qed
  qed
qed

lemma div_between:
  fixes n :: int
  assumes "0 < n" "b0 \<le> b" "b \<le> b'" "b0 * k div n = b' * k div n"
  shows "b * k div n = b0 * k div n"
proof (cases "0 \<le> k")
  case True
  have "b0 * k \<le> b * k" "b * k \<le> b' * k"
    using assms True by (simp_all add: mult_right_mono)
  then have "b0 * k div n \<le> b * k div n" "b * k div n \<le> b' * k div n"
    using assms(1) by (simp_all add: zdiv_mono1)
  then show ?thesis using assms(4) by simp
next
  case False
  then have k: "k \<le> 0" by simp
  have "b * k \<le> b0 * k" "b' * k \<le> b * k"
    using assms k by (simp_all add: mult_right_mono_neg)
  then have "b * k div n \<le> b0 * k div n" "b' * k div n \<le> b * k div n"
    using assms(1) by (simp_all add: zdiv_mono1)
  then show ?thesis using assms(4) by simp
qed

lemma ex_less_step:
  fixes b :: int
  assumes "\<exists>b0 < b. P b0"
  shows "\<exists>b0 < b + 1. P b0"
proof -
  from assms obtain b0 where "b0 < b" "P b0" by blast
  then have "b0 < b + 1 \<and> P b0" by simp
  then show ?thesis by blast
qed

lemma save_inv_view:
  "save_inv cfg n st \<longleftrightarrow>
     (case save_view st of (b, l, sv) \<Rightarrow>
        distinct sv \<and> 0 \<notin> set sv
        \<and> (\<forall>s \<in> set sv. \<exists>b0 < b. b0 * batchsize cfg div int n = s)
        \<and> (\<forall>s \<in> set sv. s \<noteq> l \<longrightarrow> (\<forall>b' \<ge> b. b' * batchsize cfg div int n \<noteq> s)))"
  by (simp add: save_inv_def save_view_def)

lemma train_step_save_inv:
  assumes inv: "save_inv cfg (dataset_len ev) st"
  shows "save_inv cfg (dataset_len ev) (snd (train_step cfg ev i st))"
proof -
  let ?n = "dataset_len ev" and ?k = "batchsize cfg"
  let ?st' = "snd (train_step cfg ev i st)"
  let ?sv = "saved_epochs (events st)"
  let ?b = "batch_idx st"
  from inv have d: "distinct ?sv" and z: "0 \<notin> set ?sv"
    and past: "\<And>s. s \<in> set ?sv \<Longrightarrow> \<exists>b0 < ?b. b0 * ?k div int ?n = s"
    and gone: "\<And>s b'. s \<in> set ?sv \<Longrightarrow> s \<noteq> last_save_epoch st \<Longrightarrow> ?b \<le> b' \<Longrightarrow> b' * ?k div int ?n \<noteq> s"
    by (auto simp: save_inv_def)
  consider (same) "save_view ?st' = save_view st"
    | (advanced) "save_view ?st' = (?b + 1, last_save_epoch st, ?sv)"
    | (save) e where "epoch_of cfg ?n ?b = Inr e" "e \<noteq> 0" "e \<noteq> last_save_epoch st"
        "save_view ?st' = (?b + 1, e, ?sv @ [e])"
    using train_step_save_view [of cfg ev i st] by blast
  then show ?thesis
  proof cases
    case same
    then show ?thesis using inv by (simp add: save_inv_view)
  next
    case advanced
    have "\<exists>b0 < ?b + 1. b0 * ?k div int ?n = s" if "s \<in> set ?sv" for s
      using past [OF that] by (rule ex_less_step)
    moreover have "b' * ?k div int ?n \<noteq> s"
      if "s \<in> set ?sv" "s \<noteq> last_save_epoch st" "?b + 1 \<le> b'" for s b'
      using gone [of s b'] that by simp
    ultimately show ?thesis using advanced d z by (simp add: save_inv_view)
  next
    case save
    from save(1) have n: "0 < int ?n" and e: "e = ?b * ?k div int ?n"
      by (auto simp: epoch_of_def split: if_splits)
    have fresh: "e \<notin> set ?sv"
    proof
      assume "e \<in> set ?sv"
      from gone [OF this save(3), of ?b] e show False by simp
    qed
    have p': "\<exists>b0 < ?b + 1. b0 * ?k div int ?n = s" if "s \<in> set (?sv @ [e])" for s
    proof (cases "s = e")
      case True
      then show ?thesis using e by (intro exI [of _ ?b]) simp
    next
      case False
      with that have "s \<in> set ?sv" by simp
      from past [OF this] show ?thesis by (rule ex_less_step)
    qed
    have g': "b' * ?k div int ?n \<noteq> s"
      if "s \<in> set (?sv @ [e])" "s \<noteq> e" "?b + 1 \<le> b'" for s b'
    proof (cases "s = last_save_epoch st")
      case False
      with that have "s \<in> set ?sv" by simp
      from gone [OF this False, of b'] that show ?thesis by simp
    next
      case True
      from that have "s \<in> set ?sv" by simp
      from past [OF this] obtain b0 where b0: "b0 < ?b" "b0 * ?k div int ?n = s" by blast
      show ?thesis
      proof
        assume "b' * ?k div int ?n = s"
        with b0 have "b0 * ?k div int ?n = b' * ?k div int ?n" by simp
        from div_between [OF n _ _ this, of ?b] b0 that have "?b * ?k div int ?n = s" by simp
        with e that show False by simp
      qed
    qed
    show ?thesis
      using d z fresh save(2) p' g' by (simp add: save_inv_view save(4))
  qed
qed

lemma save_inv_distinct:
  "save_inv cfg n st \<Longrightarrow> 0 \<notin> set (saved_epochs (events st)) \<and> distinct (saved_epochs (events st))"
  by (simp add: save_inv_def)



lemma resume_cases:
  "(resume cfg = Inl (AttributeError ''cfg'') \<and> 0 \<le> resume_epoch cfg)
   \<or> (resume cfg = Inr (0, 0) \<and> resume_epoch cfg < 0)"
  by (simp add: resume_def bindE_def)

lemma confirm_save_dir_events:
  "confirm_save_dir ev cfg = Inr es \<Longrightarrow> es = [] \<or> es = [RemoveSaveDir]"
  by (auto simp: confirm_save_dir_def split: if_splits)

lemma train_invariant:
  assumes init: "\<And>es. es = [] \<or> es = [RemoveSaveDir] \<Longrightarrow>
      P \<lparr>batch_idx = 0, last_epoch = scheduler_start ev, last_save_epoch = 0, events = es\<rparr>"
    and step: "\<And>i s. P s \<Longrightarrow> P (snd (train_step cfg ev i s))"
  shows "P (snd (train ev cfg))"
proof -
  let ?st = "\<lambda>es. \<lparr>batch_idx = 0, last_epoch = scheduler_start ev, last_save_epoch = 0, events = es\<rparr>"
  have P0: "P (?st [])" by (rule init) simp
  show ?thesis
  proof (cases "confirm_save_dir ev cfg")
    case (Inl e)
    then show ?thesis using P0 by (simp add: train_def Let_def)
  next
    case (Inr es)
    from confirm_save_dir_events [OF this] have P1: "P (?st es)" by (rule init)
    have e1: "emit es (?st []) = ?st es" by (simp add: emit_def)
    show ?thesis
    proof (cases "crop_divisible (crop_size cfg) max_stride")
      case (Inl e)
      then show ?thesis using P0 P1 Inr e1 by (simp add: train_def Let_def)
    next
      case d: (Inr divisible)
      from resume_cases [of cfg] show ?thesis
      proof
        assume "resume cfg = Inl (AttributeError ''cfg'') \<and> 0 \<le> resume_epoch cfg"
        then show ?thesis using P0 P1 Inr d e1 by (simp add: train_def Let_def)
      next
        assume r: "resume cfg = Inr (0, 0) \<and> resume_epoch cfg < 0"
        have "P (snd (train_loop cfg ev [0..<loader_len ev] (?st es)))"
          using P1 step by (rule train_loop_invariant)
        then show ?thesis using P0 P1 Inr d e1 r by (simp add: train_def Let_def)
      qed
    qed
  qed
qed

text \<open>
  C10.  In every run of \<^verbatim>\<open>train\<close>, whatever the configuration and the environment and
  however the run ends, no checkpoint is saved for the derived epoch index 0, and no
  derived epoch index has two checkpoints.
\<close>

theorem checkpoint_once_per_epoch_never_epoch_0:
  "0 \<notin> set (saved_epochs (events (snd (train ev cfg))))
   \<and> distinct (saved_epochs (events (snd (train ev cfg))))"
proof -
  have "save_inv cfg (dataset_len ev) (snd (train ev cfg))"
  proof (rule train_invariant)
    fix es :: "event list"
    assume "es = [] \<or> es = [RemoveSaveDir]"
    then have "saved_epochs es = []" by auto
    then show "save_inv cfg (dataset_len ev)
      \<lparr>batch_idx = 0, last_epoch = scheduler_start ev, last_save_epoch = 0, events = es\<rparr>"
      by (simp add: save_inv_def)
  next
    fix i s
    assume "save_inv cfg (dataset_len ev) s"
    then show "save_inv cfg (dataset_len ev) (snd (train_step cfg ev i s))"
      by (rule train_step_save_inv)
  qed
  then show ?thesis by (rule save_inv_distinct)
qed

lemmas train_eval = Let_def train_def train_step_def and_then_def forward_pass_def loss_and_update_def
  step_scheduler_def plot_if_due_def save_if_due_def emit_def epoch_of_def loss_func_list_def
  resume_def confirm_save_dir_def crop_divisible_def max_stride_def bindE_def
  example_env_def example_config_def

lemma example_run_saved: "saved_epochs (events (snd (train example_env example_config))) = [1, 2]"
  by (simp add: train_eval upt_rec)

theorem checkpoint_once_per_epoch_never_epoch_0_witness:
  "saved_epochs (events (snd (train example_env example_config))) = [1, 2]
   \<and> 0 \<notin> set (saved_epochs (events (snd (train example_env example_config))))
   \<and> distinct (saved_epochs (events (snd (train example_env example_config))))"
  by (intro conjI example_run_saved
      checkpoint_once_per_epoch_never_epoch_0 [of example_env example_config, THEN conjunct1]
      checkpoint_once_per_epoch_never_epoch_0 [of example_env example_config, THEN conjunct2])



lemma forward_pass_sched_view: "sched_view (snd (forward_pass ev i st)) = sched_view st"
  by (simp add: forward_pass_def sched_view_def emit_def scheduler_steps_append split: option.splits)

lemma loss_and_update_sched_view: "sched_view (snd (loss_and_update cfg st)) = sched_view st"
  by (simp add: loss_and_update_def sched_view_def emit_def scheduler_steps_append)

lemma plot_if_due_sched_view: "sched_view (snd (plot_if_due cfg st)) = sched_view st"
  by (simp add: plot_if_due_def sched_view_def emit_def scheduler_steps_append)

lemma save_if_due_sched_view: "sched_view (snd (save_if_due cfg e st)) = sched_view st"
  by (simp add: save_if_due_def sched_view_def emit_def scheduler_steps_append)

lemma step_scheduler_sched_view:
  "sched_view (step_scheduler e st) =
     (batch_idx st, (if e \<noteq> last_epoch st then last_epoch st + 1 else last_epoch st),
      scheduler_steps (events st) @ (if e \<noteq> last_epoch st then [e] else []))"
  by (simp add: step_scheduler_def sched_view_def emit_def scheduler_steps_append)

lemma train_step_sched_view:
  "sched_view (snd (train_step cfg ev i st)) = sched_view st \<or>
   (\<exists>e. epoch_of cfg (dataset_len ev) (batch_idx st) = Inr e \<and>
      sched_view (snd (train_step cfg ev i st))
        = (batch_idx st + 1, (if e \<noteq> last_epoch st then last_epoch st + 1 else last_epoch st),
           scheduler_steps (events st) @ (if e \<noteq> last_epoch st then [e] else [])))"
proof -
  obtain r1 s1 where f: "forward_pass ev i st = (r1, s1)" by (cases "forward_pass ev i st")
  have v1: "sched_view s1 = sched_view st" using forward_pass_sched_view [of ev i st] f by simp
  show ?thesis
  proof (cases r1)
    case (Some x)
    then show ?thesis using f v1 by (simp add: train_step_def and_then_def)
  next
    case None
    note r1 = this
    have b1: "batch_idx s1 = batch_idx st" using v1 by (simp add: sched_view_def)
    show ?thesis
    proof (cases "epoch_of cfg (dataset_len ev) (batch_idx st)")
      case (Inl x)
      then show ?thesis using f r1 v1 b1 by (simp add: train_step_def and_then_def)
    next
      case (Inr e)
      obtain r2 s2 where l: "loss_and_update cfg s1 = (r2, s2)" by (cases "loss_and_update cfg s1")
      have v2: "sched_view s2 = sched_view st"
        using loss_and_update_sched_view [of cfg s1] l v1 by simp
      show ?thesis
      proof (cases r2)
        case (Some x)
        then show ?thesis using f r1 b1 Inr l v2 by (simp add: train_step_def and_then_def)
      next
        case None
        note r2 = this
        define s3 where "s3 = (step_scheduler e s2)\<lparr>batch_idx := batch_idx s2 + 1\<rparr>"
        have p2: "batch_idx s2 = batch_idx st" "last_epoch s2 = last_epoch st"
          "scheduler_steps (events s2) = scheduler_steps (events st)"
          using v2 by (simp_all add: sched_view_def)
        have v3: "sched_view s3
          = (batch_idx st + 1, (if e \<noteq> last_epoch st then last_epoch st + 1 else last_epoch st),
             scheduler_steps (events st) @ (if e \<noteq> last_epoch st then [e] else []))"
          using step_scheduler_sched_view [of e s2] p2 by (simp add: s3_def sched_view_def)
        obtain r4 s4 where p: "plot_if_due cfg s3 = (r4, s4)" by (cases "plot_if_due cfg s3")
        have v4: "sched_view s4 = sched_view s3" using plot_if_due_sched_view [of cfg s3] p by simp
        show ?thesis
        proof (cases r4)
          case (Some x)
          then have "train_step cfg ev i st = (Some x, s4)"
            using f r1 b1 Inr l r2 p by (simp add: train_step_def and_then_def s3_def)
          then show ?thesis using v4 v3 Inr by simp
        next
          case None
          define s5 where "s5 = emit [LogMetrics e] s4"
          have v5: "sched_view s5 = sched_view s3"
            using v4 by (simp add: s5_def sched_view_def emit_def scheduler_steps_append)
          have ts: "train_step cfg ev i st = save_if_due cfg e s5"
            using f r1 b1 Inr l r2 p None by (simp add: train_step_def and_then_def s3_def s5_def)
          show ?thesis
            using save_if_due_sched_view [of cfg e s5] Inr v5 v3 by (simp add: ts)
        qed
      qed
    qed
  qed
qed

text \<open>When a batch is no larger than the dataset, the derived epoch index of the next batch is
  the same or one more\<close>
lemma epoch_next:
  fixes n k b :: int
  assumes "0 < k" "k \<le> n" "0 \<le> b"
  shows "(b + 1) * k div n = b * k div n \<or> (b + 1) * k div n = b * k div n + 1"
proof -
  have n: "0 < n" using assms by simp
  have lo: "b * k div n \<le> (b + 1) * k div n"
    using assms n by (intro zdiv_mono1) (simp_all add: algebra_simps)
  have "(b + 1) * k \<le> b * k + n" using assms by (simp add: algebra_simps)
  then have "(b + 1) * k div n \<le> (b * k + n) div n" using n by (rule zdiv_mono1)
  also have "\<dots> = b * k div n + 1" using n by simp
  finally show ?thesis using lo by linarith
qed

lemma train_step_sched_inv:
  assumes k: "0 < batchsize cfg" "batchsize cfg \<le> int (dataset_len ev)"
    and inv: "sched_inv cfg (dataset_len ev) st"
  shows "sched_inv cfg (dataset_len ev) (snd (train_step cfg ev i st))"
proof -
  let ?n = "int (dataset_len ev)" and ?k = "batchsize cfg"
  let ?st' = "snd (train_step cfg ev i st)"
  let ?b = "batch_idx st" and ?l = "last_epoch st"
  from inv have b: "0 \<le> ?b" and l: "?l = (if ?b = 0 then 0 else (?b - 1) * ?k div ?n)"
    and steps: "scheduler_steps (events st) = [1..?l]"
    by (simp_all add: sched_inv_def sched_view_def)
  have n: "0 < ?n" using k by simp
  have l0: "0 \<le> ?l"
    using l b k n by (simp add: pos_imp_zdiv_nonneg_iff)
  consider (unchanged) "sched_view ?st' = sched_view st"
    | (advanced) e where "epoch_of cfg (dataset_len ev) ?b = Inr e"
        "sched_view ?st' = (?b + 1, (if e \<noteq> ?l then ?l + 1 else ?l),
           scheduler_steps (events st) @ (if e \<noteq> ?l then [e] else []))"
    using train_step_sched_view [of cfg ev i st] by blast
  then show ?thesis
  proof cases
    case unchanged
    then show ?thesis using inv by (simp add: sched_inv_def)
  next
    case advanced
    from advanced(1) have e: "e = ?b * ?k div ?n"
      by (auto simp: epoch_of_def split: if_splits)
    have near: "e = ?l \<or> e = ?l + 1"
    proof (cases "?b = 0")
      case True
      then show ?thesis using e l by simp
    next
      case False
      with b have "0 \<le> ?b - 1" by simp
      from epoch_next [OF k this] e l False show ?thesis by simp
    qed
    show ?thesis
    proof (cases "e = ?l")
      case True
      then show ?thesis using advanced(2) b e steps by (simp add: sched_inv_def)
    next
      case False
      with near have e1: "e = ?l + 1" by simp
      have "[1..?l + 1] = [1..?l] @ [?l + 1]" using l0 by (simp add: upto_rec2)
      then show ?thesis using advanced(2) b e e1 steps False by (simp add: sched_inv_def)
    qed
  qed
qed

text \<open>
  C5, amended.  When the scheduler's cursor starts at 0 and a batch is no larger than
  the dataset, then in every run of \<^verbatim>\<open>train\<close>, however it ends: the epoch indices at
  which the scheduler stepped are exactly 1, 2, ... up to the cursor, each once (so no
  two steps fall on batches with the same derived epoch index), and the cursor is the
  derived epoch index of the last batch that reached the scheduler, which is the
  number of epoch boundaries crossed since epoch 0.
\<close>

theorem scheduler_steps_once_per_epoch:
  assumes "scheduler_start ev = 0" "0 < batchsize cfg" "batchsize cfg \<le> int (dataset_len ev)"
  shows "scheduler_steps (events (snd (train ev cfg))) = [1..last_epoch (snd (train ev cfg))]
    \<and> distinct (scheduler_steps (events (snd (train ev cfg))))
    \<and> last_epoch (snd (train ev cfg)) =
        (if batch_idx (snd (train ev cfg)) = 0 then 0
         else (batch_idx (snd (train ev cfg)) - 1) * batchsize cfg div int (dataset_len ev))"
proof -
  have "sched_inv cfg (dataset_len ev) (snd (train ev cfg))"
  proof (rule train_invariant)
    fix es :: "event list"
    assume "es = [] \<or> es = [RemoveSaveDir]"
    then have "scheduler_steps es = []" by auto
    then show "sched_inv cfg (dataset_len ev)
      \<lparr>batch_idx = 0, last_epoch = scheduler_start ev, last_save_epoch = 0, events = es\<rparr>"
      using assms(1) by (simp add: sched_inv_def sched_view_def)
  next
    fix i s
    assume "sched_inv cfg (dataset_len ev) s"
    with assms(2,3) show "sched_inv cfg (dataset_len ev) (snd (train_step cfg ev i s))"
      by (rule train_step_sched_inv)
  qed
  then have *: "scheduler_steps (events (snd (train ev cfg))) = [1..last_epoch (snd (train ev cfg))]"
    and **: "last_epoch (snd (train ev cfg)) =
        (if batch_idx (snd (train ev cfg)) = 0 then 0
         else (batch_idx (snd (train ev cfg)) - 1) * batchsize cfg div int (dataset_len ev))"
    by (simp_all add: sched_inv_def sched_view_def)
  from * have "distinct (scheduler_steps (events (snd (train ev cfg))))" by simp
  with * ** show ?thesis by simp
qed

lemma example_run_sched:
  "scheduler_steps (events (snd (train example_env example_config))) = [1, 2]
   \<and> last_epoch (snd (train example_env example_config)) = 2
   \<and> batch_idx (snd (train example_env example_config)) = 6
   \<and> fst (train example_env example_config) = None"
  by (simp add: train_eval upt_rec)

theorem scheduler_steps_once_per_epoch_witness:
  "scheduler_start example_env = 0 \<and> 0 < batchsize example_config
   \<and> batchsize example_config \<le> int (dataset_len example_env)
   \<and> scheduler_steps (events (snd (train example_env example_config))) = [1, 2]
   \<and> distinct (scheduler_steps (events (snd (train example_env example_config))))
   \<and> last_epoch (snd (train example_env example_config)) = 2"
proof -
  have h: "scheduler_start example_env = 0" "0 < batchsize example_config"
    "batchsize example_config \<le> int (dataset_len example_env)"
    by (simp_all add: example_env_def example_config_def)
  from scheduler_steps_once_per_epoch [OF h]
  have "distinct (scheduler_steps (events (snd (train example_env example_config))))"
    by (rule conjunct2 [THEN conjunct1])
  then show ?thesis using h example_run_sched by simp
qed

text \<open>
  C5 as stated fails when a batch is larger than the dataset: with one volume and
  batches of two, the batches 0, 1, 2 have the derived epoch indices 0, 2, 4, so four
  epoch boundaries are crossed, but the scheduler, which steps at most once per batch,
  has advanced only twice.
\<close>

theorem scheduler_steps_once_per_epoch_counterexample:
  "fst (train (example_env\<lparr>dataset_len := 1, loader_len := 3\<rparr>) example_config) = None
   \<and> batch_idx (snd (train (example_env\<lparr>dataset_len := 1, loader_len := 3\<rparr>) example_config)) = 3
   \<and> epoch_of example_config 1 0 = Inr 0
   \<and> epoch_of example_config 1 2 = Inr 4
   \<and> scheduler_steps
        (events (snd (train (example_env\<lparr>dataset_len := 1, loader_len := 3\<rparr>) example_config)))
       = [2, 4]
   \<and> last_epoch (snd (train (example_env\<lparr>dataset_len := 1, loader_len := 3\<rparr>) example_config)) = 2"
  by (simp add: train_eval upt_rec)

text \<open>
  The hypothesis on the cursor is needed as well: a scheduler whose cursor starts at 6
  is stepped on every one of the six batches of the example run, two times within each
  of the epochs 0, 1 and 2.
\<close>

lemma scheduler_started_off_steps_every_batch:
  "scheduler_steps (events (snd (train (example_env\<lparr>scheduler_start := 6\<rparr>) example_config)))
     = [0, 0, 1, 1, 2, 2]"
  by (simp add: train_eval upt_rec)

subsection \<open>The training engine: the loss terms and their weights\<close>


lemma train_step_mismatch:
  assumes "length (loss_func_list cfg) \<noteq> length (loss_weight cfg)"
  shows "(\<exists>e. fst (train_step cfg ev i st) = Some e \<and>
           events (snd (train_step cfg ev i st)) = events st @ [FetchBatch, ZeroGrad])
       \<or> (\<exists>e. fst (train_step cfg ev i st) = Some e \<and>
           events (snd (train_step cfg ev i st))
             = events st @ [FetchBatch, ZeroGrad, Forward, DiceScore])"
  using assms
  by (simp add: train_step_def and_then_def forward_pass_def loss_and_update_def emit_def
      split: option.splits sum.splits)

lemma train_loop_mismatch:
  assumes "length (loss_func_list cfg) \<noteq> length (loss_weight cfg)"
  shows "train_loop cfg ev (i # js) st = train_step cfg ev i st"
proof -
  from train_step_mismatch [OF assms, of ev i st]
  obtain e where "fst (train_step cfg ev i st) = Some e" by blast
  then show ?thesis by (cases "train_step cfg ev i st") simp
qed

lemma train_step_mismatch_first:
  assumes "length (loss_func_list cfg) \<noteq> length (loss_weight cfg)"
    and "net_call ev i = None" "0 < dataset_len ev"
  shows "train_step cfg ev i st =
    (Some (AssertionError ''number of valid losses should equal to that of given weights''),
     emit [FetchBatch, ZeroGrad, Forward, DiceScore] st)"
  using assms
  by (simp add: train_step_def and_then_def forward_pass_def loss_and_update_def emit_def
      epoch_of_def)

text \<open>
  C4, amended.  When the number of enabled loss terms differs from the number of
  configured weights, a run of \<^verbatim>\<open>train\<close> performs at most one forward pass and nothing
  after it: no loss is computed, nothing is propagated back, neither the optimizer nor
  the scheduler steps, and no checkpoint is saved.  When moreover the checks before
  the loop pass, the loader has a batch, the first call of the network returns and the
  dataset is not empty, the run ends in the first iteration with the failed assertion,
  raised after that iteration's forward pass and Dice score.
\<close>

theorem loss_count_mismatch_raises_in_first_iteration:
  assumes "length (loss_func_list cfg) \<noteq> length (loss_weight cfg)"
  shows "count_list (events (snd (train ev cfg))) Forward \<le> 1
    \<and> set (events (snd (train ev cfg)))
        \<subseteq> {RemoveSaveDir, FetchBatch, ZeroGrad, Forward, DiceScore}
    \<and> (cuda_available ev \<and> config_isfile ev \<and> confirm_save_dir ev cfg = Inr es
        \<and> crop_divisible (crop_size cfg) max_stride = Inr True \<and> resume_epoch cfg < 0
        \<and> 0 < loader_len ev \<and> net_call ev 0 = None \<and> 0 < dataset_len ev
       \<longrightarrow> fst (train ev cfg)
             = Some (AssertionError ''number of valid losses should equal to that of given weights'')
         \<and> events (snd (train ev cfg)) = es @ [FetchBatch, ZeroGrad, Forward, DiceScore])"
proof -
  let ?st = "\<lambda>es. \<lparr>batch_idx = 0, last_epoch = scheduler_start ev, last_save_epoch = 0, events = es\<rparr>"
  let ?ok = "\<lambda>xs. count_list xs Forward \<le> 1
      \<and> set xs \<subseteq> {RemoveSaveDir, FetchBatch, ZeroGrad, Forward, DiceScore}"
  have loop: "?ok (events (snd (train_loop cfg ev js (?st es))))"
    if "es = [] \<or> es = [RemoveSaveDir]" for es js
  proof (cases js)
    case Nil
    then show ?thesis using that by auto
  next
    case (Cons j js')
    from train_step_mismatch [OF assms, of ev j "?st es"] that
    show ?thesis unfolding Cons train_loop_mismatch [OF assms] by auto
  qed
  have general: "?ok (events (snd (train ev cfg)))"
  proof (cases "confirm_save_dir ev cfg")
    case (Inl e)
    then show ?thesis by (simp add: train_def Let_def)
  next
    case (Inr es')
    note es' = confirm_save_dir_events [OF this]
    have e1: "emit es' (?st []) = ?st es'" by (simp add: emit_def)
    have small: "?ok es'" using es' by auto
    show ?thesis
    proof (cases "crop_divisible (crop_size cfg) max_stride")
      case (Inl e)
      then show ?thesis using Inr e1 small by (simp add: train_def Let_def)
    next
      case d: (Inr divisible)
      from resume_cases [of cfg] show ?thesis
      proof
        assume "resume cfg = Inl (AttributeError ''cfg'') \<and> 0 \<le> resume_epoch cfg"
        then show ?thesis using Inr d e1 small by (simp add: train_def Let_def)
      next
        assume r: "resume cfg = Inr (0, 0) \<and> resume_epoch cfg < 0"
        show ?thesis using Inr d e1 small r loop [OF es', of "[0..<loader_len ev]"]
          by (simp add: train_def Let_def)
      qed
    qed
  qed
  have first: "fst (train ev cfg)
             = Some (AssertionError ''number of valid losses should equal to that of given weights'')
         \<and> events (snd (train ev cfg)) = es @ [FetchBatch, ZeroGrad, Forward, DiceScore]"
    if h: "cuda_available ev" "config_isfile ev" "confirm_save_dir ev cfg = Inr es"
      "crop_divisible (crop_size cfg) max_stride = Inr True" "resume_epoch cfg < 0"
      "0 < loader_len ev" "net_call ev 0 = None" "0 < dataset_len ev"
  proof -
    have r: "resume cfg = Inr (0, 0)" using h(5) by (simp add: resume_def)
    have u: "[0..<loader_len ev] = 0 # [1..<loader_len ev]" using h(6) by (simp add: upt_rec)
    show ?thesis
      using h r by (simp add: train_def Let_def u train_loop_mismatch [OF assms]
          train_step_mismatch_first [OF assms h(7,8)] emit_def)
  qed
  show ?thesis using general first by blast
qed

lemma mismatch_run:
  "train example_env mismatch_config =
    (Some (AssertionError ''number of valid losses should equal to that of given weights''),
     \<lparr>batch_idx = 0, last_epoch = 0, last_save_epoch = 0,
      events = [FetchBatch, ZeroGrad, Forward, DiceScore]\<rparr>)"
  by (simp add: train_eval upt_rec mismatch_config_def)

text \<open>
  C4 as stated fails: the assertion stands in the loop body after the call of the
  network, so with three terms and two weights the failure is raised once a forward
  pass has been performed.
\<close>

theorem loss_count_mismatch_counterexample:
  "length (loss_func_list mismatch_config) = 3 \<and> length (loss_weight mismatch_config) = 2
   \<and> fst (train example_env mismatch_config)
       = Some (AssertionError ''number of valid losses should equal to that of given weights'')
   \<and> Forward \<in> set (events (snd (train example_env mismatch_config)))"
  by (simp add: mismatch_run) (simp add: mismatch_config_def example_config_def loss_func_list_def)

theorem loss_count_mismatch_raises_in_first_iteration_witness:
  "length (loss_func_list mismatch_config) \<noteq> length (loss_weight mismatch_config)
   \<and> count_list (events (snd (train example_env mismatch_config))) Forward \<le> 1
   \<and> fst (train example_env mismatch_config)
       = Some (AssertionError ''number of valid losses should equal to that of given weights'')
   \<and> events (snd (train example_env mismatch_config)) = [FetchBatch, ZeroGrad, Forward, DiceScore]"
proof -
  have m: "length (loss_func_list mismatch_config) \<noteq> length (loss_weight mismatch_config)"
    by (simp add: mismatch_config_def example_config_def loss_func_list_def)
  have pre: "cuda_available example_env \<and> config_isfile example_env
      \<and> confirm_save_dir example_env mismatch_config = Inr []
      \<and> crop_divisible (crop_size mismatch_config) max_stride = Inr True
      \<and> resume_epoch mismatch_config < 0
      \<and> 0 < loader_len example_env \<and> net_call example_env 0 = None \<and> 0 < dataset_len example_env"
    by (simp add: mismatch_config_def example_config_def example_env_def confirm_save_dir_def
        crop_divisible_def max_stride_def)
  from loss_count_mismatch_raises_in_first_iteration [OF m, of example_env "[]"] pre
  show ?thesis using m by simp
qed

subsection \<open>The training engine: resuming\<close>

lemma resume_raises:
  assumes "0 \<le> resume_epoch cfg"
  shows "fst (train ev cfg) \<noteq> None \<and> events (snd (train ev cfg)) = []
     \<and> batch_idx (snd (train ev cfg)) = 0"
proof -
  have c: "confirm_save_dir ev cfg = Inr []" using assms by (simp add: confirm_save_dir_def)
  have r: "resume cfg = Inl (AttributeError ''cfg'')" using assms by (simp add: resume_def bindE_def)
  show ?thesis
    by (simp add: train_def Let_def c r emit_def split: sum.splits)
qed

text \<open>
  C6 does not hold of the code.  With \<^verbatim>\<open>resume_epoch = 5\<close> the run ends in the
  resume branch with an \<open>AttributeError\<close>, before the loop and before anything is
  restored: \<^verbatim>\<open>load_checkpoint\<close> is never called, and the branch would set the batch
  offset to 0, not to the stored one.
\<close>

theorem resume_raises_before_restoring:
  "train example_env (example_config\<lparr>resume_epoch := 5\<rparr>) =
     (Some (AttributeError ''cfg''),
      \<lparr>batch_idx = 0, last_epoch = 0, last_save_epoch = 0, events = []\<rparr>)"
  by (simp add: train_eval)

subsection \<open>Loading a checkpoint\<close>










end
